theory Spec2Isabelle
  imports Main "HOL-Library.Sublist" "HOL-Library.Word" "HOL-Library.Signed_Division"
begin

section \<open>Data model\<close>

text \<open>
  The agent host of \<^verbatim>\<open>AgentHost.cpp\<close> keeps a world state that its listener
  callbacks fill and that the agent drains. The value classes it stores
  (\<^verbatim>\<open>TimestampedString\<close>, \<^verbatim>\<open>TimestampedReward\<close>, \<^verbatim>\<open>TimestampedVideoFrame\<close>,
  \<^verbatim>\<open>WorldState\<close>) are declared in headers; they are modelled here as records with the
  members the source file reads and writes. A timestamp is an opaque point in time.
  The payload of a reward is a type parameter \<open>'v\<close> with an addition, the payload of a
  video frame a type parameter \<open>'f\<close>.
\<close>

type_synonym timestamp = nat

record TimestampedString =
  timestamp :: timestamp
  text_str :: string

record 'v TimestampedReward =
  reward_timestamp :: timestamp
  reward_values :: 'v

record 'f TimestampedVideoFrame =
  frame_timestamp :: timestamp
  frame :: 'f

record ('v, 'f) WorldState =
  is_mission_running :: bool
  has_mission_begun :: bool
  mission_control_messages :: "TimestampedString list"
  observations :: "TimestampedString list"
  rewards :: "'v TimestampedReward list"
  video_frames :: "'f TimestampedVideoFrame list"
  errors :: "TimestampedString list"
  number_of_video_frames_since_last_state :: nat
  number_of_rewards_since_last_state :: nat
  number_of_observations_since_last_state :: nat

datatype VideoPolicy = LATEST_FRAME_ONLY | KEEP_ALL_FRAMES

datatype RewardsPolicy = LATEST_REWARD_ONLY | SUM_REWARDS | KEEP_ALL_REWARDS

datatype ObservationsPolicy = LATEST_OBSERVATION_ONLY | KEEP_ALL_OBSERVATIONS

text \<open>
  Modelled from the spec: \<^verbatim>\<open>WorldState::clear\<close> (declared in \<^verbatim>\<open>WorldState.h\<close>).
  It empties every sequence, resets every counter to zero and sets both flags to false
  (``clear WorldState (flags false)''; the comment in \<^verbatim>\<open>startMission\<close> says the same
  of \<^verbatim>\<open>is_mission_running\<close>).
\<close>

definition WorldState_clear :: "('v, 'f) WorldState \<Rightarrow> ('v, 'f) WorldState" where
  "WorldState_clear w =
     w\<lparr>is_mission_running := False,
       has_mission_begun := False,
       mission_control_messages := [],
       observations := [],
       rewards := [],
       video_frames := [],
       errors := [],
       number_of_video_frames_since_last_state := 0,
       number_of_rewards_since_last_state := 0,
       number_of_observations_since_last_state := 0\<rparr>"

text \<open>
  Modelled from the spec: \<^verbatim>\<open>TimestampedReward::add\<close> (declared in
  \<^verbatim>\<open>TimestampedReward.h\<close>). It adds the other reward's values to this one's and keeps
  this one's timestamp (``Sum combines the new item with the existing single retained
  item, replacing it, keeping the newest timestamp'').
\<close>

definition add :: "'v::plus TimestampedReward \<Rightarrow> 'v TimestampedReward \<Rightarrow> 'v TimestampedReward" where
  "add r other = r\<lparr>reward_values := reward_values r + reward_values other\<rparr>"


section \<open>The agent host\<close>

record ClientInfo =
  ip_address :: string
  port :: int

text \<open>A \<^verbatim>\<open>ClientPool\<close> is its vector \<^verbatim>\<open>clients\<close>.\<close>

type_synonym ClientPool = "ClientInfo list"

text \<open>
  Modelled from the spec: \<^verbatim>\<open>MissionSpec\<close>, \<^verbatim>\<open>MissionRecord\<close> and
  \<^verbatim>\<open>MissionInitSpec\<close> (declared in their own headers), with the accessors the source
  file calls. The mission description gives the participant count and the video request
  of each role; the recording description says what is recorded and where; the
  negotiation record holds the experiment identifier, the agent's ports, the chosen
  client and, once known, the shared server. A \<^verbatim>\<open>MissionRecord\<close> is taken to be its
  \<^verbatim>\<open>MissionRecordSpec\<close>.
\<close>

record MissionSpec =
  getNumberOfAgents :: int
  isVideoRequested :: "int \<Rightarrow> bool"
  getVideoWidth :: "int \<Rightarrow> int"
  getVideoHeight :: "int \<Rightarrow> int"
  getVideoChannels :: "int \<Rightarrow> int"

record MissionRecord =
  isRecording :: bool
  isRecordingCommands :: bool
  isRecordingMP4 :: bool
  isRecordingRewards :: bool
  isRecordingObservations :: bool
  getMissionInitPath :: string
  getCommandsPath :: string
  getMP4Path :: string
  getMP4FramesPerSecond :: int
  getMP4BitRate :: int
  getRewardsPath :: string
  getObservationsPath :: string

record MissionInitSpec =
  getExperimentID :: string
  getAgentMissionControlPort :: int
  getAgentVideoPort :: int
  getAgentRewardsPort :: int
  getAgentObservationsPort :: int
  getClientAddress :: string
  getClientMissionControlPort :: int
  getClientCommandsPort :: int
  getMinecraftServerInformation :: "(string \<times> int) option"

definition hasMinecraftServerInformation :: "MissionInitSpec \<Rightarrow> bool" where
  "hasMinecraftServerInformation mi = (getMinecraftServerInformation mi \<noteq> None)"

text \<open>
  Modelled from the spec: the listeners \<^verbatim>\<open>StringServer\<close> and \<^verbatim>\<open>VideoServer\<close>
  (declared in their own headers). A listener has the port it is bound to; a string
  listener records to a file while \<open>string_recording\<close> names one, and \<open>recorded\<close> are
  the messages written through \<^verbatim>\<open>recordMessage\<close>; a video listener has its frame
  geometry, the MP4 writer it was given and whether it is recording.
\<close>

record StringServer =
  string_port :: int
  string_recording :: "string option"
  recorded :: "TimestampedString list"

record VideoServer =
  video_port :: int
  getWidth :: int
  getHeight :: int
  getChannels :: int
  mp4 :: "(string \<times> int \<times> int) option"
  video_recording :: bool

definition record_to :: "string \<Rightarrow> StringServer \<Rightarrow> StringServer" where
  "record_to path srv = srv\<lparr>string_recording := Some path\<rparr>"

definition recordMessage :: "TimestampedString \<Rightarrow> StringServer \<Rightarrow> StringServer" where
  "recordMessage message srv =
     (if string_recording srv \<noteq> None then srv\<lparr>recorded := recorded srv @ [message]\<rparr> else srv)"

definition string_stopRecording :: "StringServer \<Rightarrow> StringServer" where
  "string_stopRecording srv = srv\<lparr>string_recording := None\<rparr>"

definition video_stopRecording :: "VideoServer \<Rightarrow> VideoServer" where
  "video_stopRecording srv = srv\<lparr>video_recording := False\<rparr>"

text \<open>
  One request/reply exchange with a client: the host asked, the request sent, and the
  reply (\<open>None\<close> when \<^verbatim>\<open>SendStringAndGetShortReply\<close> throws).
\<close>

record Exchange =
  asked :: ClientInfo
  request :: string
  reply :: "string option"

text \<open>
  The members of \<^verbatim>\<open>AgentHost\<close> that the modelled operations read or write. A shared
  pointer is an \<open>option\<close> (\<open>None\<close> is the null pointer). \<open>commands_stream\<close> is the path
  of the open commands file (\<open>None\<close> when closed), \<open>commands_connection\<close> the address
  and port it is connected to. Two fields stand for the outside world: \<open>io_service\<close> is
  the list of exchanges made through the I/O service so far, oldest first, and
  \<open>written_files\<close> the files written (path and content). What the debug flag
  \<open>display_client_pool_messages\<close> prints to the standard output is left out.
\<close>

record ('v, 'f) AgentHost =
  video_policy :: VideoPolicy
  rewards_policy :: RewardsPolicy
  observations_policy :: ObservationsPolicy
  current_role :: int
  display_client_pool_messages :: bool
  world_state :: "('v, 'f) WorldState"
  current_mission_init :: "MissionInitSpec option"
  current_mission_record :: "MissionRecord option"
  mission_control_server :: "StringServer option"
  video_server :: "VideoServer option"
  rewards_server :: "StringServer option"
  observations_server :: "StringServer option"
  commands_stream :: "string option"
  commands_connection :: "(string \<times> int) option"
  io_service :: "Exchange list"
  written_files :: "(string \<times> string) list"

section \<open>Collaborators\<close>

text \<open>
  What the source file takes from other translation units and libraries is a parameter
  of the model, so that every theorem holds for each behaviour of these collaborators:
  \<^item> \<open>MALMO_VERSION\<close>: the version macro;
  \<^item> \<open>SendStringAndGetShortReply\<close>: the reply of a host to a request, given the exchanges
    made before (\<open>None\<close> when the call throws);
  \<^item> \<open>read_xml\<close>: the property-tree parser, giving the names of the top-level nodes or
    the message of its exception;
  \<^item> \<open>MissionInitSpec_of_xml\<close>, \<open>MissionEnded_of_xml\<close>: the validating schema parsers,
    giving the parsed document or the schema exception;
  \<^item> \<open>MissionInitSpec_new\<close>: the constructor of a negotiation record with default
    settings; \<open>getAsXML\<close>: its serialisation;
  \<^item> \<open>createFromSimpleString\<close>, \<open>getAsSimpleString\<close>: the reward's text form, the
    former giving the message of its exception when the text does not parse;
  \<^item> \<open>assigned_port\<close>: the port the system assigns to a listener that asks for port 0.

  Calls into collaborators that the source file does not guard (creating a listener,
  opening a file or a connection) are taken to succeed.
\<close>

datatype Channel = MissionControl | Video | Rewards | Observations

record xml_exception =
  what :: string
  diagnostics :: string

datatype MissionResult = ENDED | PLAYER_DIED | OTHER_RESULT nat

record 'v MissionEnded =
  Status :: MissionResult
  HumanReadableStatus :: string
  Reward :: "'v option"

record 'v Env =
  MALMO_VERSION :: string
  SendStringAndGetShortReply :: "Exchange list \<Rightarrow> ClientInfo \<Rightarrow> string \<Rightarrow> string option"
  read_xml :: "string \<Rightarrow> string + string list"
  MissionInitSpec_of_xml :: "string \<Rightarrow> xml_exception + MissionInitSpec"
  MissionEnded_of_xml :: "string \<Rightarrow> xml_exception + 'v MissionEnded"
  MissionInitSpec_new :: "MissionSpec \<Rightarrow> string \<Rightarrow> int \<Rightarrow> MissionInitSpec"
  getAsXML :: "MissionInitSpec \<Rightarrow> bool \<Rightarrow> string"
  createFromSimpleString :: "timestamp \<Rightarrow> string \<Rightarrow> string + 'v TimestampedReward"
  getAsSimpleString :: "'v TimestampedReward \<Rightarrow> string"
  assigned_port :: "Channel \<Rightarrow> int"

section \<open>World state aggregation\<close>

definition push_back :: "'a list \<Rightarrow> 'a \<Rightarrow> 'a list" where
  "push_back xs x = xs @ [x]"

definition getWorldState :: "('v, 'f) AgentHost \<Rightarrow> ('v, 'f) WorldState \<times> ('v, 'f) AgentHost" where
  "getWorldState s =
     (let old_world_state = world_state s;
          w = WorldState_clear (world_state s);
          w = w\<lparr>is_mission_running := is_mission_running old_world_state\<rparr>;
          w = w\<lparr>has_mission_begun := has_mission_begun old_world_state\<rparr>
      in (old_world_state, s\<lparr>world_state := w\<rparr>))"

definition peekWorldState :: "('v, 'f) AgentHost \<Rightarrow> ('v, 'f) WorldState" where
  "peekWorldState s = world_state s"

definition onVideo :: "'f TimestampedVideoFrame \<Rightarrow> ('v, 'f) AgentHost \<Rightarrow> ('v, 'f) AgentHost" where
  "onVideo message s =
     (let w = world_state s;
          w = (case video_policy s of
                 LATEST_FRAME_ONLY \<Rightarrow> w\<lparr>video_frames := push_back [] message\<rparr>
               | KEEP_ALL_FRAMES \<Rightarrow> w\<lparr>video_frames := push_back (video_frames w) message\<rparr>)
      in s\<lparr>world_state := w\<lparr>number_of_video_frames_since_last_state :=
                                number_of_video_frames_since_last_state w + 1\<rparr>\<rparr>)"

definition processReceivedReward ::
  "'v::plus TimestampedReward \<Rightarrow> ('v, 'f) AgentHost \<Rightarrow> ('v, 'f) AgentHost" where
  "processReceivedReward reward s =
     (let w = world_state s;
          w = (case rewards_policy s of
                 LATEST_REWARD_ONLY \<Rightarrow> w\<lparr>rewards := push_back [] reward\<rparr>
               | SUM_REWARDS \<Rightarrow>
                   (case rewards w of
                      [] \<Rightarrow> w\<lparr>rewards := push_back (rewards w) reward\<rparr>
                    | front # _ \<Rightarrow> w\<lparr>rewards := push_back [] (add reward front)\<rparr>)
               | KEEP_ALL_REWARDS \<Rightarrow> w\<lparr>rewards := push_back (rewards w) reward\<rparr>)
      in s\<lparr>world_state := w\<lparr>number_of_rewards_since_last_state :=
                                number_of_rewards_since_last_state w + 1\<rparr>\<rparr>)"

definition onObservation :: "TimestampedString \<Rightarrow> ('v, 'f) AgentHost \<Rightarrow> ('v, 'f) AgentHost" where
  "onObservation message s =
     (let w = world_state s;
          w = (case observations_policy s of
                 LATEST_OBSERVATION_ONLY \<Rightarrow> w\<lparr>observations := push_back [] message\<rparr>
               | KEEP_ALL_OBSERVATIONS \<Rightarrow> w\<lparr>observations := push_back (observations w) message\<rparr>)
      in s\<lparr>world_state := w\<lparr>number_of_observations_since_last_state :=
                                number_of_observations_since_last_state w + 1\<rparr>\<rparr>)"

definition push_error :: "TimestampedString \<Rightarrow> ('v, 'f) AgentHost \<Rightarrow> ('v, 'f) AgentHost" where
  "push_error error_message s =
     s\<lparr>world_state := (world_state s)\<lparr>errors := push_back (errors (world_state s)) error_message\<rparr>\<rparr>"

definition onReward ::
  "'v::plus Env \<Rightarrow> TimestampedString \<Rightarrow> ('v, 'f) AgentHost \<Rightarrow> ('v, 'f) AgentHost" where
  "onReward env message s =
     (case createFromSimpleString env (timestamp message) (text_str message) of
        Inr reward \<Rightarrow> processReceivedReward reward s
      | Inl e_what \<Rightarrow>
          push_error
            (message\<lparr>text_str := ''Error parsing Reward message: '' @ e_what @ '' : '' @ text_str message\<rparr>)
            s)"


definition setVideoPolicy :: "VideoPolicy \<Rightarrow> ('v, 'f) AgentHost \<Rightarrow> ('v, 'f) AgentHost" where
  "setVideoPolicy videoPolicy s = s\<lparr>video_policy := videoPolicy\<rparr>"

definition setRewardsPolicy :: "RewardsPolicy \<Rightarrow> ('v, 'f) AgentHost \<Rightarrow> ('v, 'f) AgentHost" where
  "setRewardsPolicy rewardsPolicy s = s\<lparr>rewards_policy := rewardsPolicy\<rparr>"

definition setObservationsPolicy ::
  "ObservationsPolicy \<Rightarrow> ('v, 'f) AgentHost \<Rightarrow> ('v, 'f) AgentHost" where
  "setObservationsPolicy observationsPolicy s = s\<lparr>observations_policy := observationsPolicy\<rparr>"

section \<open>Errors\<close>

text \<open>
  The exceptions that leave an operation. Each \<^verbatim>\<open>std::runtime_error\<close> thrown by the
  source file is a constructor carrying what its message is built from. The last two
  stand for what C++ leaves undefined: dereferencing a null shared pointer and indexing
  a vector out of range.
\<close>

datatype error =
    InvalidRoleSingleAgent int
  | InvalidRoleMultiAgent int int
  | VideoWidthNotDivisibleBy4
  | VideoHeightNotDivisibleBy2
  | MissionAlreadyRunning
  | NotEnoughClients int
  | MalformedReply string
  | ServerNotFound
  | NoAvailableClient
  | GeneratedXMLInvalid xml_exception string
  | CommandsPortUnknown
  | NullPointer
  | IndexOutOfRange

section \<open>Teardown and listeners\<close>

definition close :: "('v, 'f) AgentHost \<Rightarrow> ('v, 'f) AgentHost" where
  "close s =
     s\<lparr>world_state := (world_state s)\<lparr>is_mission_running := False\<rparr>,
       video_server := map_option video_stopRecording (video_server s),
       observations_server := map_option string_stopRecording (observations_server s),
       rewards_server := map_option string_stopRecording (rewards_server s),
       commands_stream := None,
       commands_connection := None\<rparr>"

definition new_StringServer :: "'v Env \<Rightarrow> Channel \<Rightarrow> int \<Rightarrow> StringServer" where
  "new_StringServer env channel p =
     \<lparr>string_port = (if p = 0 then assigned_port env channel else p),
      string_recording = None,
      recorded = []\<rparr>"

text \<open>A \<^verbatim>\<open>short\<close> argument made from an \<^verbatim>\<open>int\<close>: the low 16 bits, signed.\<close>

definition to_short :: "int \<Rightarrow> int" where
  "to_short x = sint (word_of_int x :: 16 word)"

text \<open>
  The four \<^verbatim>\<open>listenFor...\<close> members are called by \<^verbatim>\<open>initializeOurServers\<close> only,
  right after it has set \<^verbatim>\<open>current_mission_record\<close>; they take the record that pointer
  refers to as the argument \<open>rec\<close>.
\<close>

definition listenForMissionControlMessages ::
  "'v Env \<Rightarrow> int \<Rightarrow> ('v, 'f) AgentHost \<Rightarrow> ('v, 'f) AgentHost" where
  "listenForMissionControlMessages env p s =
     (case mission_control_server s of
        Some srv \<Rightarrow>
          if p = 0 \<or> string_port srv = p then s
          else s\<lparr>mission_control_server := Some (new_StringServer env MissionControl p)\<rparr>
      | None \<Rightarrow> s\<lparr>mission_control_server := Some (new_StringServer env MissionControl p)\<rparr>)"

definition recordMP4 :: "MissionRecord \<Rightarrow> VideoServer \<Rightarrow> VideoServer" where
  "recordMP4 rec srv =
     (if isRecordingMP4 rec
      then srv\<lparr>mp4 := Some (getMP4Path rec, getMP4FramesPerSecond rec, getMP4BitRate rec)\<rparr>
      else srv)"

definition listenForVideo ::
  "'v Env \<Rightarrow> MissionRecord \<Rightarrow> int \<Rightarrow> int \<Rightarrow> int \<Rightarrow> int \<Rightarrow> ('v, 'f) AgentHost \<Rightarrow> ('v, 'f) AgentHost" where
  "listenForVideo env rec p width height channels s =
     (let fresh = \<lparr>video_port = (if p = 0 then assigned_port env Video else p),
                   getWidth = width, getHeight = height, getChannels = channels,
                   mp4 = None, video_recording = False\<rparr>;
          srv = (case video_server s of
                   None \<Rightarrow> recordMP4 rec fresh
                 | Some old \<Rightarrow>
                     if (p \<noteq> 0 \<and> video_port old \<noteq> p) \<or> getWidth old \<noteq> width
                        \<or> getHeight old \<noteq> height \<or> getChannels old \<noteq> channels
                     then recordMP4 rec fresh
                     else recordMP4 rec old)
      in s\<lparr>video_server := Some (srv\<lparr>video_recording := True\<rparr>)\<rparr>)"

definition listen_string ::
  "'v Env \<Rightarrow> Channel \<Rightarrow> bool \<Rightarrow> string \<Rightarrow> int \<Rightarrow> StringServer option \<Rightarrow> StringServer" where
  "listen_string env channel recording path p server =
     (let srv = (case server of
                   None \<Rightarrow> new_StringServer env channel p
                 | Some old \<Rightarrow>
                     if p \<noteq> 0 \<and> string_port old \<noteq> p then new_StringServer env channel p else old)
      in if recording then record_to path srv else srv)"

definition listenForRewards ::
  "'v Env \<Rightarrow> MissionRecord \<Rightarrow> int \<Rightarrow> ('v, 'f) AgentHost \<Rightarrow> ('v, 'f) AgentHost" where
  "listenForRewards env rec p s =
     s\<lparr>rewards_server :=
         Some (listen_string env Rewards (isRecordingRewards rec) (getRewardsPath rec) p
                 (rewards_server s))\<rparr>"

definition listenForObservations ::
  "'v Env \<Rightarrow> MissionRecord \<Rightarrow> int \<Rightarrow> ('v, 'f) AgentHost \<Rightarrow> ('v, 'f) AgentHost" where
  "listenForObservations env rec p s =
     s\<lparr>observations_server :=
         Some (listen_string env Observations (isRecordingObservations rec)
                 (getObservationsPath rec) p (observations_server s))\<rparr>"

definition initializeOurServers ::
  "'v Env \<Rightarrow> MissionSpec \<Rightarrow> MissionRecord \<Rightarrow> int \<Rightarrow> string \<Rightarrow> ('v, 'f) AgentHost \<Rightarrow> ('v, 'f) AgentHost" where
  "initializeOurServers env mission mission_record role unique_experiment_id s =
     (let mi = MissionInitSpec_new env mission unique_experiment_id role;
          s = s\<lparr>current_mission_init := Some mi,
                current_mission_record := Some mission_record,
                current_role := role\<rparr>;
          s = listenForMissionControlMessages env (getAgentMissionControlPort mi) s;
          s = (if isVideoRequested mission role
               then listenForVideo env mission_record (getAgentVideoPort mi)
                      (to_short (getVideoWidth mission role))
                      (to_short (getVideoHeight mission role))
                      (to_short (getVideoChannels mission role)) s
               else s);
          s = listenForRewards env mission_record (getAgentRewardsPort mi) s;
          s = listenForObservations env mission_record (getAgentObservationsPort mi) s;
          s = s\<lparr>commands_stream := None\<rparr>;
          s = (if isRecordingCommands mission_record
               then s\<lparr>commands_stream := Some (getCommandsPath mission_record)\<rparr>
               else s);
          mi = mi\<lparr>getAgentMissionControlPort :=
                    (case mission_control_server s of Some srv \<Rightarrow> string_port srv
                     | None \<Rightarrow> getAgentMissionControlPort mi)\<rparr>;
          mi = mi\<lparr>getAgentObservationsPort :=
                    (case observations_server s of Some srv \<Rightarrow> string_port srv
                     | None \<Rightarrow> getAgentObservationsPort mi)\<rparr>;
          mi = (case video_server s of Some srv \<Rightarrow> mi\<lparr>getAgentVideoPort := video_port srv\<rparr>
                | None \<Rightarrow> mi);
          mi = mi\<lparr>getAgentRewardsPort :=
                    (case rewards_server s of Some srv \<Rightarrow> string_port srv
                     | None \<Rightarrow> getAgentRewardsPort mi)\<rparr>
      in s\<lparr>current_mission_init := Some mi\<rparr>)"


section \<open>Client discovery\<close>

definition newline :: string where
  "newline = [CHR 0x0A]"

text \<open>
  \<^verbatim>\<open>SendStringAndGetShortReply\<close> through the I/O service: the reply depends on the
  exchanges made so far, and the exchange is added to them.
\<close>

definition send_request ::
  "'v Env \<Rightarrow> ClientInfo \<Rightarrow> string \<Rightarrow> ('v, 'f) AgentHost \<Rightarrow> string option \<times> ('v, 'f) AgentHost" where
  "send_request env item req s =
     (let r = SendStringAndGetShortReply env (io_service s) item req
      in (r, s\<lparr>io_service := io_service s @ [\<lparr>asked = item, request = req, reply = r\<rparr>]\<rparr>))"

text \<open>
  The first loop of \<^verbatim>\<open>reserveClients\<close>: the hosts still to ask, the clients reserved
  so far and the number still required. It returns the last two and the state.
\<close>

fun reserve_loop ::
  "'v Env \<Rightarrow> string \<Rightarrow> ClientInfo list \<Rightarrow> ClientPool \<Rightarrow> int \<Rightarrow> ('v, 'f) AgentHost
     \<Rightarrow> ClientPool \<times> int \<times> ('v, 'f) AgentHost" where
  "reserve_loop env req [] reservedClients clients_required s =
     (reservedClients, clients_required, s)"
| "reserve_loop env req (item # rest) reservedClients clients_required s =
     (case send_request env item req s of
        (None, s) \<Rightarrow> reserve_loop env req rest reservedClients clients_required s
      | (Some rep, s) \<Rightarrow>
          if prefix ''MALMOOK'' rep then
            (let reservedClients = push_back reservedClients item;
                 clients_required = clients_required - 1
             in if clients_required = 0 then (reservedClients, clients_required, s)
                else reserve_loop env req rest reservedClients clients_required s)
          else reserve_loop env req rest reservedClients clients_required s)"

text \<open>The second loop: a cancellation to each reserved client, whatever it replies.\<close>

fun cancel_loop :: "'v Env \<Rightarrow> ClientInfo list \<Rightarrow> ('v, 'f) AgentHost \<Rightarrow> ('v, 'f) AgentHost" where
  "cancel_loop env [] s = s"
| "cancel_loop env (item # rest) s =
     cancel_loop env rest (snd (send_request env item (''MALMO_CANCEL_REQUEST'' @ newline) s))"

definition reservation_request :: "'v Env \<Rightarrow> MissionInitSpec \<Rightarrow> string" where
  "reservation_request env mi =
     ''MALMO_REQUEST_CLIENT:'' @ MALMO_VERSION env @ '':20000:'' @ getExperimentID mi @ newline"

definition reserveClients ::
  "'v Env \<Rightarrow> ClientPool \<Rightarrow> int \<Rightarrow> ('v, 'f) AgentHost \<Rightarrow> (error + ClientPool) \<times> ('v, 'f) AgentHost" where
  "reserveClients env client_pool clients_required s =
     (case current_mission_init s of
        None \<Rightarrow> (Inl NullPointer, s)
      | Some mi \<Rightarrow>
          (case reserve_loop env (reservation_request env mi) client_pool [] clients_required s of
             (reservedClients, clients_required, s) \<Rightarrow>
               if clients_required > 0 then (Inr [], cancel_loop env reservedClients s)
               else (Inr reservedClients, s)))"

text \<open>
  \<^verbatim>\<open>std::string::find_first_of\<close> for one character, \<^verbatim>\<open>substr\<close>, and
  \<^verbatim>\<open>sscanf\<close> with \<^verbatim>\<open>"%d"\<close>: white space is skipped, a sign may follow, and the
  conversion succeeds when at least one digit follows. \<open>scan_decimal\<close> is the number
  written; \<open>sscanf_d\<close> is what reaches the \<^verbatim>\<open>int\<close> of the source: the number
  saturates at the range of a 64-bit \<^verbatim>\<open>long\<close> and its low 32 bits are stored, signed
  (what the C library does with a number that an \<^verbatim>\<open>int\<close> cannot hold, which the C
  standard leaves open).
\<close>

definition find_first_of :: "string \<Rightarrow> char \<Rightarrow> nat option" where
  "find_first_of str c =
     (if c \<in> set str then Some (length (takeWhile (\<lambda>x. x \<noteq> c) str)) else None)"

definition substr :: "string \<Rightarrow> nat \<Rightarrow> nat \<Rightarrow> string" where
  "substr str pos len = take len (drop pos str)"

definition isspace :: "char \<Rightarrow> bool" where
  "isspace c = (c \<in> set [CHR '' '', CHR 0x09, CHR 0x0A, CHR 0x0B, CHR 0x0C, CHR 0x0D])"

definition isdigit :: "char \<Rightarrow> bool" where
  "isdigit c = ((48::nat) \<le> of_char c \<and> of_char c \<le> (57::nat))"

definition digits_value :: "string \<Rightarrow> int" where
  "digits_value ds = foldl (\<lambda>acc c. 10 * acc + (int (of_char c) - 48)) 0 ds"

definition scan_decimal :: "string \<Rightarrow> int option" where
  "scan_decimal str =
     (let str = dropWhile isspace str;
          (sign, str) = (case str of
                           c # rest \<Rightarrow> if c = CHR ''-'' then (- 1, rest)
                                       else if c = CHR ''+'' then (1, rest) else (1, str)
                         | [] \<Rightarrow> (1, str));
          ds = takeWhile isdigit str
      in if ds = [] then None else Some (sign * digits_value ds))"

definition store_int :: "int \<Rightarrow> int" where
  "store_int v = sint (word_of_int (max (- (2 ^ 63)) (min (2 ^ 63 - 1) v)) :: 32 word)"

definition sscanf_d :: "string \<Rightarrow> int option" where
  "sscanf_d str = map_option store_int (scan_decimal str)"

definition setMinecraftServerInformation ::
  "string \<Rightarrow> int \<Rightarrow> MissionInitSpec \<Rightarrow> MissionInitSpec" where
  "setMinecraftServerInformation address p mi = mi\<lparr>getMinecraftServerInformation := Some (address, p)\<rparr>"

text \<open>
  The loop of \<^verbatim>\<open>findServer\<close>. \<open>None\<close> says that the loop ended without leaving the
  function; otherwise the function returned or threw from inside the loop.
\<close>

fun findServer_loop ::
  "'v Env \<Rightarrow> string \<Rightarrow> ClientInfo list \<Rightarrow> ('v, 'f) AgentHost
     \<Rightarrow> (error + bool) option \<times> ('v, 'f) AgentHost" where
  "findServer_loop env req [] s = (None, s)"
| "findServer_loop env req (item # rest) s =
     (case send_request env item req s of
        (None, s) \<Rightarrow> findServer_loop env req rest s
      | (Some rep, s) \<Rightarrow>
          if prefix ''MALMOS'' rep then
            (case find_first_of rep CHR '':'' of
               None \<Rightarrow> (Some (Inl (MalformedReply rep)), s)
             | Some colon \<Rightarrow>
                 (let minecraft_server_address =
                        substr rep (length ''MALMOS'') (colon - length ''MALMOS'');
                      minecraft_server_port_as_string = drop (colon + 1) rep
                  in case sscanf_d minecraft_server_port_as_string of
                       None \<Rightarrow> (Some (Inl (MalformedReply rep)), s)
                     | Some minecraft_server_port \<Rightarrow>
                         (Some (Inr True),
                          s\<lparr>current_mission_init :=
                              map_option
                                (setMinecraftServerInformation minecraft_server_address
                                   minecraft_server_port)
                                (current_mission_init s)\<rparr>)))
          else findServer_loop env req rest s)"

definition findServer ::
  "'v Env \<Rightarrow> ClientPool \<Rightarrow> ('v, 'f) AgentHost \<Rightarrow> (error + bool) \<times> ('v, 'f) AgentHost" where
  "findServer env client_pool s =
     (case current_mission_init s of
        None \<Rightarrow> (Inl NullPointer, s)
      | Some mi \<Rightarrow>
          (case findServer_loop env (''MALMO_FIND_SERVER'' @ getExperimentID mi @ newline)
                  client_pool s of
             (Some outcome, s) \<Rightarrow> (outcome, s)
           | (None, s) \<Rightarrow> (Inl ServerNotFound, close s)))"

definition generateMissionInit :: "'v Env \<Rightarrow> MissionInitSpec \<Rightarrow> error + string" where
  "generateMissionInit env mi =
     (let generated_xml = getAsXML env mi False
      in case MissionInitSpec_of_xml env generated_xml of
           Inl e \<Rightarrow> Inl (GeneratedXMLInvalid e generated_xml)
         | Inr test_output \<Rightarrow> Inr generated_xml)"

text \<open>
  The loop of \<^verbatim>\<open>findClient\<close> over the values of \<^verbatim>\<open>i\<close> still to come. The index
  \<^verbatim>\<open>(i + current_role) % num_clients\<close> is computed on \<^verbatim>\<open>int\<close>, where \<^verbatim>\<open>%\<close>
  truncates towards zero. An index outside the pool, which only a negative role can
  give, is the error \<open>IndexOutOfRange\<close>; \<open>startMission\<close> stores no negative role.
\<close>

fun findClient_loop ::
  "'v Env \<Rightarrow> ClientPool \<Rightarrow> nat list \<Rightarrow> ('v, 'f) AgentHost
     \<Rightarrow> (error + unit) option \<times> ('v, 'f) AgentHost" where
  "findClient_loop env client_pool [] s = (None, s)"
| "findClient_loop env client_pool (i # rest) s =
     (let num_clients = int (length client_pool);
          k = (int i + current_role s) smod num_clients
      in if k < 0 \<or> num_clients \<le> k then (Some (Inl IndexOutOfRange), s)
         else
           (let item = client_pool ! nat k
            in case current_mission_init s of
                 None \<Rightarrow> (Some (Inl NullPointer), s)
               | Some mi \<Rightarrow>
                   (let mi = mi\<lparr>getClientAddress := ip_address item\<rparr>;
                        mi = mi\<lparr>getClientMissionControlPort := port item\<rparr>;
                        s = s\<lparr>current_mission_init := Some mi\<rparr>
                    in case generateMissionInit env mi of
                         Inl e \<Rightarrow> (Some (Inl e), s)
                       | Inr generated_xml \<Rightarrow>
                           (case send_request env item (generated_xml @ newline) s of
                              (None, s) \<Rightarrow> findClient_loop env client_pool rest s
                            | (Some rep, s) \<Rightarrow>
                                if rep = ''MALMOOK'' then (Some (Inr ()), s)
                                else findClient_loop env client_pool rest s))))"

definition findClient ::
  "'v Env \<Rightarrow> ClientPool \<Rightarrow> ('v, 'f) AgentHost \<Rightarrow> (error + unit) \<times> ('v, 'f) AgentHost" where
  "findClient env client_pool s =
     (case findClient_loop env client_pool [0 ..< length client_pool] s of
        (Some outcome, s) \<Rightarrow> (outcome, s)
      | (None, s) \<Rightarrow> (Inl NoAvailableClient, close s))"


section \<open>Starting a mission\<close>

definition startMission ::
  "'v Env \<Rightarrow> MissionSpec \<Rightarrow> ClientPool \<Rightarrow> MissionRecord \<Rightarrow> int \<Rightarrow> string \<Rightarrow> ('v, 'f) AgentHost
     \<Rightarrow> (error + unit) \<times> ('v, 'f) AgentHost" where
  "startMission env mission client_pool mission_record role unique_experiment_id s =
     (if role < 0 \<or> role \<ge> getNumberOfAgents mission then
        (if getNumberOfAgents mission = 1 then (Inl (InvalidRoleSingleAgent role), s)
         else (Inl (InvalidRoleMultiAgent role (getNumberOfAgents mission - 1)), s))
      else if isVideoRequested mission role \<and> getVideoWidth mission role mod 4 \<noteq> 0 then
        (Inl VideoWidthNotDivisibleBy4, s)
      else if isVideoRequested mission role \<and> getVideoHeight mission role mod 2 \<noteq> 0 then
        (Inl VideoHeightNotDivisibleBy2, s)
      else if is_mission_running (world_state s) then (Inl MissionAlreadyRunning, s)
      else
        (let s = initializeOurServers env mission mission_record role unique_experiment_id s
         in case (if getNumberOfAgents mission > 1 \<and> role = 0 then
                    (case reserveClients env client_pool (getNumberOfAgents mission) s of
                       (Inl e, s) \<Rightarrow> (Inl e, s)
                     | (Inr reservedAgents, s) \<Rightarrow>
                         if int (length reservedAgents) \<noteq> getNumberOfAgents mission
                         then (Inl (NotEnoughClients (getNumberOfAgents mission)), s)
                         else (Inr reservedAgents, s))
                  else (Inr client_pool, s)) of
              (Inl e, s) \<Rightarrow> (Inl e, s)
            | (Inr pool, s) \<Rightarrow>
                (case (if getNumberOfAgents mission > 1 \<and> role > 0 then
                         (case current_mission_init s of
                            None \<Rightarrow> (Inl NullPointer, s)
                          | Some mi \<Rightarrow>
                              if \<not> hasMinecraftServerInformation mi then findServer env pool s
                              else (Inr True, s))
                       else (Inr True, s)) of
                   (Inl e, s) \<Rightarrow> (Inl e, s)
                 | (Inr found, s) \<Rightarrow>
                     (case findClient env pool s of
                        (Inl e, s) \<Rightarrow> (Inl e, s)
                      | (Inr u, s) \<Rightarrow>
                          (let s = s\<lparr>world_state := WorldState_clear (world_state s)\<rparr>
                           in case current_mission_record s of
                                None \<Rightarrow> (Inl NullPointer, s)
                              | Some rec \<Rightarrow>
                                  if isRecording rec then
                                    (case current_mission_init s of
                                       None \<Rightarrow> (Inl NullPointer, s)
                                     | Some mi \<Rightarrow>
                                         (Inr (),
                                          s\<lparr>written_files := written_files s @
                                               [(getMissionInitPath rec, getAsXML env mi True)]\<rparr>))
                                  else (Inr (), s))))))"

section \<open>Mission control messages\<close>

definition openCommandsConnection ::
  "('v, 'f) AgentHost \<Rightarrow> (error + unit) \<times> ('v, 'f) AgentHost" where
  "openCommandsConnection s =
     (case current_mission_init s of
        None \<Rightarrow> (Inl NullPointer, s)
      | Some mi \<Rightarrow>
          (let mod_commands_port = getClientCommandsPort mi
           in if mod_commands_port = 0 then (Inl CommandsPortUnknown, s)
              else (Inr (),
                    s\<lparr>commands_connection := Some (getClientAddress mi, mod_commands_port)\<rparr>)))"

definition push_message :: "TimestampedString \<Rightarrow> ('v, 'f) AgentHost \<Rightarrow> ('v, 'f) AgentHost" where
  "push_message xml s =
     s\<lparr>world_state := (world_state s)\<lparr>mission_control_messages :=
          push_back (mission_control_messages (world_state s)) xml\<rparr>\<rparr>"

definition schema_error_text :: "string \<Rightarrow> xml_exception \<Rightarrow> TimestampedString \<Rightarrow> string" where
  "schema_error_text kind e xml =
     ''Error parsing '' @ kind @ '' message XML: '' @ what e @ '' : '' @ diagnostics e @ '':''
       @ substr (text_str xml) 0 20 @ ''...''"

text \<open>
  The part of the \<^verbatim>\<open>MissionEnded\<close> branch inside its \<^verbatim>\<open>try\<close>, after the document
  has been parsed: an error entry for an abnormal status, then the final reward of a
  running mission.
\<close>

definition process_mission_ended ::
  "'v::plus Env \<Rightarrow> TimestampedString \<Rightarrow> 'v MissionEnded \<Rightarrow> ('v, 'f) AgentHost
     \<Rightarrow> (error + unit) \<times> ('v, 'f) AgentHost" where
  "process_mission_ended env xml mission_ended s =
     (let s = (case Status mission_ended of
                 ENDED \<Rightarrow> s
               | PLAYER_DIED \<Rightarrow> s
               | OTHER_RESULT n \<Rightarrow>
                   push_error
                     (xml\<lparr>text_str := ''Mission ended abnormally: '' @ HumanReadableStatus mission_ended\<rparr>)
                     s)
      in if is_mission_running (world_state s) then
           (case Reward mission_ended of
              None \<Rightarrow> (Inr (), s)
            | Some v \<Rightarrow>
                (let final_reward = \<lparr>reward_timestamp = timestamp xml, reward_values = v\<rparr>;
                     s = processReceivedReward final_reward s
                 in case rewards_server s of
                      None \<Rightarrow> (Inl NullPointer, s)
                    | Some srv \<Rightarrow>
                        (Inr (),
                         s\<lparr>rewards_server :=
                             Some (recordMessage
                                     \<lparr>timestamp = timestamp xml,
                                      text_str = getAsSimpleString env final_reward\<rparr> srv)\<rparr>)))
         else (Inr (), s))"

definition onMissionControlMessage ::
  "'v::plus Env \<Rightarrow> TimestampedString \<Rightarrow> ('v, 'f) AgentHost \<Rightarrow> (error + unit) \<times> ('v, 'f) AgentHost" where
  "onMissionControlMessage env xml s =
     (case read_xml env (text_str xml) of
        Inl e_what \<Rightarrow>
          (Inr (),
           push_error
             (xml\<lparr>text_str := ''Error parsing mission control message as XML: '' @ e_what @ '':''
                      @ newline @ substr (text_str xml) 0 20 @ ''...'' @ newline\<rparr>) s)
      | Inr [] \<Rightarrow>
          (Inr (), push_error (xml\<lparr>text_str := ''Empty XML string in mission control message''\<rparr>) s)
      | Inr (root_node_name # others) \<Rightarrow>
          if \<not> is_mission_running (world_state s) \<and> root_node_name = ''MissionInit'' then
            (case MissionInitSpec_of_xml env (text_str xml) of
               Inl e \<Rightarrow>
                 (Inr (), push_error (xml\<lparr>text_str := schema_error_text ''MissionInit'' e xml\<rparr>) s)
             | Inr mi \<Rightarrow>
                 (let s = s\<lparr>current_mission_init := Some mi\<rparr>;
                      s = s\<lparr>world_state := (world_state s)\<lparr>is_mission_running := True\<rparr>\<rparr>;
                      s = s\<lparr>world_state := (world_state s)\<lparr>has_mission_begun := True\<rparr>\<rparr>
                  in case openCommandsConnection s of
                       (Inl e, s) \<Rightarrow> (Inl e, s)
                     | (Inr u, s) \<Rightarrow> (Inr (), push_message xml s)))
          else if root_node_name = ''MissionEnded'' then
            (case MissionEnded_of_xml env (text_str xml) of
               Inl e \<Rightarrow>
                 (Inr (), push_error (xml\<lparr>text_str := schema_error_text ''MissionEnded'' e xml\<rparr>) s)
             | Inr mission_ended \<Rightarrow>
                 (case process_mission_ended env xml mission_ended s of
                    (Inl e, s) \<Rightarrow> (Inl e, s)
                  | (Inr u, s) \<Rightarrow> (Inr (), push_message xml (close s))))
          else if root_node_name = ''ping'' then (Inr (), push_message xml s)
          else
            (Inr (),
             push_error
               (xml\<lparr>text_str := ''Unknown mission control message root node or at wrong time: ''
                        @ root_node_name @ '' :'' @ substr (text_str xml) 0 200 @ ''...''\<rparr>) s))"

section \<open>Reading the exchanges\<close>

text \<open>
  Two kinds of exchange, told by what \<^verbatim>\<open>reserveClients\<close> sends and tests: a
  reservation request whose reply begins with \<^verbatim>\<open>MALMOOK\<close>, and a cancellation
  request.
\<close>

definition accepted_reservation :: "Exchange \<Rightarrow> bool" where
  "accepted_reservation e =
     (prefix ''MALMO_REQUEST_CLIENT:'' (request e)
      \<and> (case reply e of Some rep \<Rightarrow> prefix ''MALMOOK'' rep | None \<Rightarrow> False))"

definition cancellation :: "Exchange \<Rightarrow> bool" where
  "cancellation e = (request e = ''MALMO_CANCEL_REQUEST'' @ newline)"

section \<open>Construction\<close>

text \<open>
  The state the constructor leaves: the three default policies, role 0, no debug output,
  a world state with nothing in it, and no mission record, listener or connection yet.
\<close>

definition WorldState_new :: "('v, 'f) WorldState" where
  "WorldState_new =
     \<lparr>is_mission_running = False, has_mission_begun = False, mission_control_messages = [],
      observations = [], rewards = [], video_frames = [], errors = [],
      number_of_video_frames_since_last_state = 0,
      number_of_rewards_since_last_state = 0,
      number_of_observations_since_last_state = 0\<rparr>"

definition AgentHost_new :: "('v, 'f) AgentHost" where
  "AgentHost_new =
     \<lparr>video_policy = LATEST_FRAME_ONLY,
      rewards_policy = SUM_REWARDS,
      observations_policy = LATEST_OBSERVATION_ONLY,
      current_role = 0,
      display_client_pool_messages = False,
      world_state = WorldState_new,
      current_mission_init = None,
      current_mission_record = None,
      mission_control_server = None,
      video_server = None,
      rewards_server = None,
      observations_server = None,
      commands_stream = None,
      commands_connection = None,
      io_service = [],
      written_files = []\<rparr>"

section \<open>Example inputs\<close>

text \<open>
  Concrete collaborators and inputs, on which the theorems below are instantiated:
  rewards are integers written in decimal, a document is read by its first tag, every
  host is silent unless an example says otherwise.
\<close>

definition example_read_xml :: "string \<Rightarrow> string + string list" where
  "example_read_xml str =
     (case str of
        [] \<Rightarrow> Inr []
      | c # rest \<Rightarrow>
          if c = CHR ''<'' \<and> CHR ''>'' \<in> set rest
          then Inr [takeWhile (\<lambda>x. x \<noteq> CHR ''>'') rest]
          else Inl ''expected <'')"

definition example_mission_init :: MissionInitSpec where
  "example_mission_init =
     \<lparr>getExperimentID = ''exp'',
      getAgentMissionControlPort = 0,
      getAgentVideoPort = 0,
      getAgentRewardsPort = 0,
      getAgentObservationsPort = 0,
      getClientAddress = [],
      getClientMissionControlPort = 0,
      getClientCommandsPort = 0,
      getMinecraftServerInformation = None\<rparr>"

definition example_env :: "int Env" where
  "example_env =
     \<lparr>MALMO_VERSION = ''0.21.0'',
      SendStringAndGetShortReply = (\<lambda>history item req. None),
      read_xml = example_read_xml,
      MissionInitSpec_of_xml =
        (\<lambda>str. if prefix ''<MissionInit>'' str
               then Inr (example_mission_init\<lparr>getClientAddress := ''10.0.0.1'',
                                              getClientCommandsPort := 10001\<rparr>)
               else Inl \<lparr>what = ''invalid'', diagnostics = ''no MissionInit''\<rparr>),
      MissionEnded_of_xml =
        (\<lambda>str. if str = ''<MissionEnded>ENDED''
               then Inr \<lparr>Status = ENDED, HumanReadableStatus = ''ended'', Reward = None\<rparr>
               else if str = ''<MissionEnded>CRASHED''
               then Inr \<lparr>Status = OTHER_RESULT 0, HumanReadableStatus = ''crashed'',
                         Reward = Some 5\<rparr>
               else Inl \<lparr>what = ''invalid'', diagnostics = ''no status''\<rparr>),
      MissionInitSpec_new = (\<lambda>mission unique_experiment_id role.
                               example_mission_init\<lparr>getExperimentID := unique_experiment_id\<rparr>),
      getAsXML = (\<lambda>mi prettyPrint. ''<MissionInit>'' @ getClientAddress mi),
      createFromSimpleString =
        (\<lambda>t str. case scan_decimal str of
                    None \<Rightarrow> Inl ''not a number''
                  | Some v \<Rightarrow> Inr \<lparr>reward_timestamp = t, reward_values = v\<rparr>),
      getAsSimpleString = (\<lambda>r. ''reward''),
      assigned_port = (\<lambda>channel. case channel of MissionControl \<Rightarrow> 50001 | Video \<Rightarrow> 50002
                                  | Rewards \<Rightarrow> 50003 | Observations \<Rightarrow> 50004)\<rparr>"

definition example_running :: "(int, nat) AgentHost" where
  "example_running =
     AgentHost_new
       \<lparr>world_state := WorldState_new\<lparr>is_mission_running := True, has_mission_begun := True\<rparr>,
        current_mission_init := Some (example_mission_init\<lparr>getClientAddress := ''10.0.0.1'',
                                                          getClientCommandsPort := 10001\<rparr>),
        mission_control_server := Some \<lparr>string_port = 50001, string_recording = None, recorded = []\<rparr>,
        rewards_server := Some \<lparr>string_port = 50003, string_recording = Some ''rewards.txt'',
                                recorded = []\<rparr>,
        observations_server := Some \<lparr>string_port = 50004, string_recording = None, recorded = []\<rparr>,
        commands_connection := Some (''10.0.0.1'', 10001)\<rparr>"

definition example_mission :: MissionSpec where
  "example_mission =
     \<lparr>getNumberOfAgents = 2,
      isVideoRequested = (\<lambda>role. role = 1),
      getVideoWidth = (\<lambda>role. 320),
      getVideoHeight = (\<lambda>role. 240),
      getVideoChannels = (\<lambda>role. 3)\<rparr>"

definition example_record :: MissionRecord where
  "example_record =
     \<lparr>isRecording = True,
      isRecordingCommands = True,
      isRecordingMP4 = False,
      isRecordingRewards = True,
      isRecordingObservations = False,
      getMissionInitPath = ''missionInit.xml'',
      getCommandsPath = ''commands.txt'',
      getMP4Path = ''video.mp4'',
      getMP4FramesPerSecond = 20,
      getMP4BitRate = 400000,
      getRewardsPath = ''rewards.txt'',
      getObservationsPath = ''observations.txt''\<rparr>"

definition example_host :: "int \<Rightarrow> ClientInfo" where
  "example_host i = \<lparr>ip_address = ''127.0.0.1'', port = 10000 + i\<rparr>"

text \<open>Collaborators whose hosts reply by a fixed function of the host and the request.\<close>

definition example_env_replies :: "(ClientInfo \<Rightarrow> string \<Rightarrow> string option) \<Rightarrow> int Env" where
  "example_env_replies f =
     example_env\<lparr>SendStringAndGetShortReply := (\<lambda>history item req. f item req)\<rparr>"

definition example_role3 :: "(int, nat) AgentHost" where
  "example_role3 =
     AgentHost_new\<lparr>current_role := 3, current_mission_init := Some example_mission_init\<rparr>"

text \<open>
  The host after \<open>initializeOurServers\<close> for role 1 of the example mission, recording
  as the example record says, with the ports of the example collaborators.
\<close>

definition example_initialized :: "(int, nat) AgentHost" where
  "example_initialized =
     AgentHost_new
       \<lparr>current_role := 1,
        current_mission_init := Some (example_mission_init
           \<lparr>getAgentMissionControlPort := 50001, getAgentVideoPort := 50002,
            getAgentRewardsPort := 50003, getAgentObservationsPort := 50004\<rparr>),
        current_mission_record := Some example_record,
        mission_control_server := Some \<lparr>string_port = 50001, string_recording = None, recorded = []\<rparr>,
        video_server := Some \<lparr>video_port = 50002, getWidth = 320, getHeight = 240, getChannels = 3,
                               mp4 = None, video_recording = True\<rparr>,
        rewards_server := Some \<lparr>string_port = 50003, string_recording = Some ''rewards.txt'',
                                recorded = []\<rparr>,
        observations_server := Some \<lparr>string_port = 50004, string_recording = None, recorded = []\<rparr>,
        commands_stream := Some ''commands.txt''\<rparr>"

section \<open>Properties of the world state aggregation\<close>

lemma onVideo_policy [simp]: "video_policy (onVideo f s) = video_policy s"
  by (simp add: onVideo_def Let_def)

lemma fold_onVideo_policy [simp]: "video_policy (fold onVideo fs s) = video_policy s"
  by (induction fs arbitrary: s) simp_all

lemma fold_onVideo_count:
  "number_of_video_frames_since_last_state (world_state (fold onVideo fs s)) =
     number_of_video_frames_since_last_state (world_state s) + length fs"
  by (induction fs arbitrary: s) (simp_all add: onVideo_def Let_def split: VideoPolicy.splits)

lemma fold_onVideo_latest:
  assumes "video_policy s = LATEST_FRAME_ONLY" "fs \<noteq> []"
  shows "video_frames (world_state (fold onVideo fs s)) = [last fs]"
proof -
  obtain gs g where fs: "fs = gs @ [g]"
    using assms(2) by (cases fs rule: rev_cases) auto
  show ?thesis
    using assms(1) by (simp add: fs onVideo_def Let_def push_back_def)
qed

lemma onObservation_policy [simp]: "observations_policy (onObservation m s) = observations_policy s"
  by (simp add: onObservation_def Let_def)

lemma fold_onObservation_policy [simp]:
  "observations_policy (fold onObservation ms s) = observations_policy s"
  by (induction ms arbitrary: s) simp_all

lemma fold_onObservation_count:
  "number_of_observations_since_last_state (world_state (fold onObservation ms s)) =
     number_of_observations_since_last_state (world_state s) + length ms"
  by (induction ms arbitrary: s)
     (simp_all add: onObservation_def Let_def split: ObservationsPolicy.splits)

lemma fold_onObservation_latest:
  assumes "observations_policy s = LATEST_OBSERVATION_ONLY" "ms \<noteq> []"
  shows "observations (world_state (fold onObservation ms s)) = [last ms]"
proof -
  obtain ns n where ms: "ms = ns @ [n]"
    using assms(2) by (cases ms rule: rev_cases) auto
  show ?thesis
    using assms(1) by (simp add: ms onObservation_def Let_def push_back_def)
qed

lemma processReceivedReward_policy [simp]:
  "rewards_policy (processReceivedReward r s) = rewards_policy s"
  by (simp add: processReceivedReward_def Let_def)

lemma fold_processReceivedReward_policy [simp]:
  "rewards_policy (fold processReceivedReward rs s) = rewards_policy s"
  by (induction rs arbitrary: s) simp_all

lemma fold_processReceivedReward_count:
  "number_of_rewards_since_last_state (world_state (fold processReceivedReward rs s)) =
     number_of_rewards_since_last_state (world_state s) + length rs"
  by (induction rs arbitrary: s)
     (simp_all add: processReceivedReward_def Let_def split: RewardsPolicy.splits list.splits)

lemma fold_processReceivedReward_latest:
  assumes "rewards_policy s = LATEST_REWARD_ONLY" "rs \<noteq> []"
  shows "rewards (world_state (fold processReceivedReward rs s)) = [last rs]"
proof -
  obtain qs q where rs: "rs = qs @ [q]"
    using assms(2) by (cases rs rule: rev_cases) auto
  show ?thesis
    using assms(1) by (simp add: rs processReceivedReward_def Let_def push_back_def)
qed

text \<open>Messages that all parse are handled as their rewards are.\<close>

lemma fold_onReward_parsed:
  "map (\<lambda>m. createFromSimpleString env (timestamp m) (text_str m)) ms = map Inr rs \<Longrightarrow>
   fold (onReward env) ms s = fold processReceivedReward rs s"
proof (induction ms arbitrary: rs s)
  case Nil
  then show ?case by simp
next
  case (Cons m ms)
  then obtain r rs' where rs: "rs = r # rs'"
    by (cases rs) auto
  with Cons show ?case
    by (simp add: onReward_def)
qed

lemma processReceivedReward_sum:
  "rewards_policy s = SUM_REWARDS \<Longrightarrow>
   rewards (world_state (processReceivedReward r s)) =
     (case rewards (world_state s) of [] \<Rightarrow> [r] | front # _ \<Rightarrow> [add r front])"
  by (simp add: processReceivedReward_def push_back_def Let_def split: list.splits)

lemmas example_defs =
  example_env_def example_read_xml_def example_mission_init_def example_running_def
  example_role3_def example_initialized_def   example_mission_def example_record_def example_host_def example_env_replies_def AgentHost_new_def
  WorldState_new_def sscanf_d_def scan_decimal_def isspace_def isdigit_def digits_value_def

text \<open>
  C1. Draining twice in a row, with nothing delivered in between: the first call
  returns the accumulated world state; the second returns one in which every sequence
  is empty and every counter is zero; both flags have the same values in the two
  returned snapshots and in the state the host retains.
\<close>

theorem getWorldState_twice:
  "(let (first, s1) = getWorldState s; (second, s2) = getWorldState s1
    in first = world_state s
     \<and> mission_control_messages second = [] \<and> observations second = []
     \<and> rewards second = [] \<and> video_frames second = [] \<and> errors second = []
     \<and> number_of_video_frames_since_last_state second = 0
     \<and> number_of_rewards_since_last_state second = 0
     \<and> number_of_observations_since_last_state second = 0
     \<and> is_mission_running second = is_mission_running first
     \<and> has_mission_begun second = has_mission_begun first
     \<and> is_mission_running (world_state s2) = is_mission_running first
     \<and> has_mission_begun (world_state s2) = has_mission_begun first)"
  by (simp add: getWorldState_def WorldState_clear_def Let_def)

theorem getWorldState_twice_witness:
  "fst (getWorldState (onObservation \<lparr>timestamp = 1, text_str = ''obs''\<rparr>
          (AgentHost_new :: (int, nat) AgentHost))) =
     WorldState_new\<lparr>observations := [\<lparr>timestamp = 1, text_str = ''obs''\<rparr>],
                    number_of_observations_since_last_state := 1\<rparr>
   \<and> fst (getWorldState (snd (getWorldState (onObservation \<lparr>timestamp = 1, text_str = ''obs''\<rparr>
          (AgentHost_new :: (int, nat) AgentHost))))) = WorldState_new"
  using getWorldState_twice
          [of "onObservation \<lparr>timestamp = 1, text_str = ''obs''\<rparr> (AgentHost_new :: (int, nat) AgentHost)"]
  by (simp add: getWorldState_def WorldState_clear_def onObservation_def push_back_def
        AgentHost_new_def WorldState_new_def Let_def)

text \<open>
  C2. Under the policy \<^verbatim>\<open>SUM_REWARDS\<close>, three reward messages that parse to the
  rewards \<open>ra\<close>, \<open>rb\<close>, \<open>rc\<close>, delivered in this order to the reward handler of a host
  that retains no reward (as after a drain), leave exactly one retained reward: its
  value is \<open>ra + rb + rc\<close> and its timestamp is that of \<open>rc\<close>. Of the addition of
  reward values only commutativity is used.
\<close>

theorem sum_rewards_three:
  fixes ra rb rc :: "'v::plus TimestampedReward" and s :: "('v, 'f) AgentHost"
  assumes comm: "\<And>a b :: 'v. a + b = b + a"
    and policy: "rewards_policy s = SUM_REWARDS"
    and drained: "rewards (world_state s) = []"
    and pa: "createFromSimpleString env (timestamp ma) (text_str ma) = Inr ra"
    and pb: "createFromSimpleString env (timestamp mb) (text_str mb) = Inr rb"
    and pc: "createFromSimpleString env (timestamp mc) (text_str mc) = Inr rc"
  shows "rewards (world_state (onReward env mc (onReward env mb (onReward env ma s)))) =
           [\<lparr>reward_timestamp = reward_timestamp rc,
             reward_values = reward_values ra + reward_values rb + reward_values rc\<rparr>]"
proof -
  have "reward_values rc + (reward_values rb + reward_values ra)
          = reward_values ra + reward_values rb + reward_values rc"
    using comm [of "reward_values rc"] comm [of "reward_values rb"] by simp
  then show ?thesis
    using policy drained pa pb pc
    by (simp add: onReward_def processReceivedReward_sum add_def)
qed

theorem sum_rewards_three_witness:
  "rewards (world_state
     (onReward example_env \<lparr>timestamp = 30, text_str = ''3''\<rparr>
       (onReward example_env \<lparr>timestamp = 20, text_str = ''2''\<rparr>
         (onReward example_env \<lparr>timestamp = 10, text_str = ''1''\<rparr>
           (AgentHost_new :: (int, nat) AgentHost))))) =
     [\<lparr>reward_timestamp = 30, reward_values = 6\<rparr>]"
  using sum_rewards_three
          [where s = "AgentHost_new :: (int, nat) AgentHost" and env = example_env
             and ma = "\<lparr>timestamp = 10, text_str = ''1''\<rparr>"
             and mb = "\<lparr>timestamp = 20, text_str = ''2''\<rparr>"
             and mc = "\<lparr>timestamp = 30, text_str = ''3''\<rparr>"
             and ra = "\<lparr>reward_timestamp = 10, reward_values = 1\<rparr>"
             and rb = "\<lparr>reward_timestamp = 20, reward_values = 2\<rparr>"
             and rc = "\<lparr>reward_timestamp = 30, reward_values = 3\<rparr>"]
  by (simp add: example_defs)

text \<open>
  C3. Under a latest-only policy, \<open>N \<ge> 1\<close> deliveries to the handler of a host whose
  counter for that kind is zero (as after a drain) leave exactly one retained item, the
  last one delivered, and the counter at \<open>N\<close>. This holds for video frames, for reward
  messages that all parse, and for observations.
\<close>

theorem latest_only_retains_last:
  "(video_policy s = LATEST_FRAME_ONLY
      \<and> number_of_video_frames_since_last_state (world_state s) = 0 \<and> fs \<noteq> [] \<longrightarrow>
      video_frames (world_state (fold onVideo fs s)) = [last fs]
      \<and> number_of_video_frames_since_last_state (world_state (fold onVideo fs s)) = length fs)
   \<and> (rewards_policy s = LATEST_REWARD_ONLY
      \<and> number_of_rewards_since_last_state (world_state s) = 0 \<and> ms \<noteq> []
      \<and> map (\<lambda>m. createFromSimpleString env (timestamp m) (text_str m)) ms = map Inr rs \<longrightarrow>
      rewards (world_state (fold (onReward env) ms s)) = [last rs]
      \<and> number_of_rewards_since_last_state (world_state (fold (onReward env) ms s)) = length ms)
   \<and> (observations_policy s = LATEST_OBSERVATION_ONLY
      \<and> number_of_observations_since_last_state (world_state s) = 0 \<and> os \<noteq> [] \<longrightarrow>
      observations (world_state (fold onObservation os s)) = [last os]
      \<and> number_of_observations_since_last_state (world_state (fold onObservation os s)) = length os)"
proof (intro conjI impI)
  assume "video_policy s = LATEST_FRAME_ONLY
      \<and> number_of_video_frames_since_last_state (world_state s) = 0 \<and> fs \<noteq> []"
  then show "video_frames (world_state (fold onVideo fs s)) = [last fs]"
    and "number_of_video_frames_since_last_state (world_state (fold onVideo fs s)) = length fs"
    by (simp_all add: fold_onVideo_latest fold_onVideo_count)
next
  assume a: "rewards_policy s = LATEST_REWARD_ONLY
      \<and> number_of_rewards_since_last_state (world_state s) = 0 \<and> ms \<noteq> []
      \<and> map (\<lambda>m. createFromSimpleString env (timestamp m) (text_str m)) ms = map Inr rs"
  then have eq: "fold (onReward env) ms s = fold processReceivedReward rs s"
    by (simp add: fold_onReward_parsed)
  from a have len: "length rs = length ms"
    by (metis length_map)
  with a have ne: "rs \<noteq> []" by auto
  from a ne show "rewards (world_state (fold (onReward env) ms s)) = [last rs]"
    by (simp add: eq fold_processReceivedReward_latest)
  from a len show "number_of_rewards_since_last_state (world_state (fold (onReward env) ms s)) = length ms"
    by (simp add: eq fold_processReceivedReward_count)
next
  assume "observations_policy s = LATEST_OBSERVATION_ONLY
      \<and> number_of_observations_since_last_state (world_state s) = 0 \<and> os \<noteq> []"
  then show "observations (world_state (fold onObservation os s)) = [last os]"
    and "number_of_observations_since_last_state (world_state (fold onObservation os s)) = length os"
    by (simp_all add: fold_onObservation_latest fold_onObservation_count)
qed

theorem latest_only_retains_last_witness:
  "video_frames (world_state (fold onVideo
       [\<lparr>frame_timestamp = 1, frame = 11\<rparr>, \<lparr>frame_timestamp = 2, frame = 12\<rparr>,
        \<lparr>frame_timestamp = 3, frame = 13\<rparr>]
       (setRewardsPolicy LATEST_REWARD_ONLY (AgentHost_new :: (int, nat) AgentHost)))) =
     [\<lparr>frame_timestamp = 3, frame = 13\<rparr>]
   \<and> number_of_video_frames_since_last_state (world_state (fold onVideo
       [\<lparr>frame_timestamp = 1, frame = 11\<rparr>, \<lparr>frame_timestamp = 2, frame = 12\<rparr>,
        \<lparr>frame_timestamp = 3, frame = 13\<rparr>]
       (setRewardsPolicy LATEST_REWARD_ONLY (AgentHost_new :: (int, nat) AgentHost)))) = 3
   \<and> rewards (world_state (fold (onReward example_env)
       [\<lparr>timestamp = 10, text_str = ''1''\<rparr>, \<lparr>timestamp = 20, text_str = ''2''\<rparr>]
       (setRewardsPolicy LATEST_REWARD_ONLY (AgentHost_new :: (int, nat) AgentHost)))) =
     [\<lparr>reward_timestamp = 20, reward_values = 2\<rparr>]
   \<and> number_of_rewards_since_last_state (world_state (fold (onReward example_env)
       [\<lparr>timestamp = 10, text_str = ''1''\<rparr>, \<lparr>timestamp = 20, text_str = ''2''\<rparr>]
       (setRewardsPolicy LATEST_REWARD_ONLY (AgentHost_new :: (int, nat) AgentHost)))) = 2
   \<and> observations (world_state (fold onObservation
       [\<lparr>timestamp = 1, text_str = ''a''\<rparr>, \<lparr>timestamp = 2, text_str = ''b''\<rparr>]
       (setRewardsPolicy LATEST_REWARD_ONLY (AgentHost_new :: (int, nat) AgentHost)))) =
     [\<lparr>timestamp = 2, text_str = ''b''\<rparr>]
   \<and> number_of_observations_since_last_state (world_state (fold onObservation
       [\<lparr>timestamp = 1, text_str = ''a''\<rparr>, \<lparr>timestamp = 2, text_str = ''b''\<rparr>]
       (setRewardsPolicy LATEST_REWARD_ONLY (AgentHost_new :: (int, nat) AgentHost)))) = 2"
  using latest_only_retains_last
          [where s = "setRewardsPolicy LATEST_REWARD_ONLY (AgentHost_new :: (int, nat) AgentHost)"
             and env = example_env
             and fs = "[\<lparr>frame_timestamp = 1, frame = 11\<rparr>, \<lparr>frame_timestamp = 2, frame = 12\<rparr>,
                        \<lparr>frame_timestamp = 3, frame = 13\<rparr>]"
             and ms = "[\<lparr>timestamp = 10, text_str = ''1''\<rparr>, \<lparr>timestamp = 20, text_str = ''2''\<rparr>]"
             and rs = "[\<lparr>reward_timestamp = 10, reward_values = 1\<rparr>,
                        \<lparr>reward_timestamp = 20, reward_values = 2\<rparr>]"
             and os = "[\<lparr>timestamp = 1, text_str = ''a''\<rparr>, \<lparr>timestamp = 2, text_str = ''b''\<rparr>]"]
  by (simp add: example_defs setRewardsPolicy_def)

text \<open>
  C10. A reward message whose text does not parse appends exactly one entry to the
  errors of the world state and changes nothing else: the retained rewards and the
  counter of rewards are as before.
\<close>

theorem reward_parse_failure:
  assumes "createFromSimpleString env (timestamp m) (text_str m) = Inl e"
  shows "onReward env m s =
           s\<lparr>world_state := (world_state s)\<lparr>errors := errors (world_state s) @
               [\<lparr>timestamp = timestamp m,
                 text_str = ''Error parsing Reward message: '' @ e @ '' : '' @ text_str m\<rparr>]\<rparr>\<rparr>"
  using assms by (simp add: onReward_def push_error_def push_back_def)

theorem reward_parse_failure_witness:
  "onReward example_env \<lparr>timestamp = 7, text_str = ''abc''\<rparr> (AgentHost_new :: (int, nat) AgentHost) =
     AgentHost_new\<lparr>world_state := WorldState_new\<lparr>errors :=
        [\<lparr>timestamp = 7, text_str = ''Error parsing Reward message: not a number : abc''\<rparr>]\<rparr>\<rparr>"
  using reward_parse_failure
          [where env = example_env and m = "\<lparr>timestamp = 7, text_str = ''abc''\<rparr>"
             and e = "''not a number''" and s = "AgentHost_new :: (int, nat) AgentHost"]
  by (simp add: example_defs)

section \<open>Properties of the mission control handler\<close>

lemmas handler_defs =
  onMissionControlMessage_def push_error_def push_message_def push_back_def
  openCommandsConnection_def process_mission_ended_def close_def Let_def

text \<open>
  As stated, C7 fails: a message that is not XML is classified as an error (one error
  entry is recorded) and is not appended to the mission control messages.
\<close>

theorem classified_error_not_appended:
  "errors (world_state (snd (onMissionControlMessage example_env
       \<lparr>timestamp = 1, text_str = ''garbage''\<rparr> (AgentHost_new :: (int, nat) AgentHost)))) =
     [\<lparr>timestamp = 1,
       text_str = ''Error parsing mission control message as XML: expected <:'' @ newline
                   @ ''garbage...'' @ newline\<rparr>]
   \<and> mission_control_messages (world_state (snd (onMissionControlMessage example_env
       \<lparr>timestamp = 1, text_str = ''garbage''\<rparr> (AgentHost_new :: (int, nat) AgentHost)))) = []
   \<and> mission_control_messages (world_state (snd (onMissionControlMessage example_env
       \<lparr>timestamp = 1, text_str = ''garbage''\<rparr> (AgentHost_new :: (int, nat) AgentHost)))) \<noteq>
     mission_control_messages (world_state (AgentHost_new :: (int, nat) AgentHost))
       @ [\<lparr>timestamp = 1, text_str = ''garbage''\<rparr>]"
  by (simp add: handler_defs example_defs substr_def)

lemma processReceivedReward_mcm [simp]:
  "mission_control_messages (world_state (processReceivedReward r s)) =
     mission_control_messages (world_state s)"
  by (simp add: processReceivedReward_def Let_def split: RewardsPolicy.splits list.splits)

lemma processReceivedReward_running [simp]:
  "is_mission_running (world_state (processReceivedReward r s)) = is_mission_running (world_state s)"
  by (simp add: processReceivedReward_def Let_def split: RewardsPolicy.splits list.splits)

lemma processReceivedReward_rewards_server [simp]:
  "rewards_server (processReceivedReward r s) = rewards_server s"
  by (simp add: processReceivedReward_def Let_def)

lemma processReceivedReward_errors [simp]:
  "errors (world_state (processReceivedReward r s)) = errors (world_state s)"
  by (simp add: processReceivedReward_def Let_def split: RewardsPolicy.splits list.splits)


lemma push_error_fields [simp]:
  "mission_control_messages (world_state (push_error e s)) = mission_control_messages (world_state s)"
  "is_mission_running (world_state (push_error e s)) = is_mission_running (world_state s)"
  "errors (world_state (push_error e s)) = errors (world_state s) @ [e]"
  "rewards_server (push_error e s) = rewards_server s"
  by (simp_all add: push_error_def push_back_def)

lemma process_mission_ended_fst:
  "fst (process_mission_ended env xml mission_ended s) =
     (if is_mission_running (world_state s) \<and> Reward mission_ended \<noteq> None \<and> rewards_server s = None
      then Inl NullPointer else Inr ())"
  by (cases "Status mission_ended")
     (auto simp: process_mission_ended_def Let_def split: option.splits)

lemma process_mission_ended_mcm:
  "mission_control_messages (world_state (snd (process_mission_ended env xml mission_ended s))) =
     mission_control_messages (world_state s)"
  by (cases "Status mission_ended")
     (auto simp: process_mission_ended_def Let_def split: option.splits)

lemma process_mission_ended_errors:
  "errors (world_state (snd (process_mission_ended env xml mission_ended s))) =
     errors (world_state s) @
     (case Status mission_ended of
        ENDED \<Rightarrow> []
      | PLAYER_DIED \<Rightarrow> []
      | OTHER_RESULT n \<Rightarrow>
          [xml\<lparr>text_str := ''Mission ended abnormally: '' @ HumanReadableStatus mission_ended\<rparr>])"
  by (cases "Status mission_ended")
     (auto simp: process_mission_ended_def Let_def split: option.splits)

lemma close_fields [simp]:
  "mission_control_messages (world_state (close s)) = mission_control_messages (world_state s)"
  "errors (world_state (close s)) = errors (world_state s)"
  "is_mission_running (world_state (close s)) = False"
  "commands_connection (close s) = None"
  "commands_stream (close s) = None"
  by (simp_all add: close_def)

lemma push_message_fields [simp]:
  "mission_control_messages (world_state (push_message xml s)) =
     mission_control_messages (world_state s) @ [xml]"
  "errors (world_state (push_message xml s)) = errors (world_state s)"
  "is_mission_running (world_state (push_message xml s)) = is_mission_running (world_state s)"
  "commands_connection (push_message xml s) = commands_connection s"
  "commands_stream (push_message xml s) = commands_stream s"
  by (simp_all add: push_message_def push_back_def)

lemma onMissionControlMessage_ended:
  assumes "read_xml env (text_str xml) = Inr (''MissionEnded'' # others)"
  shows "onMissionControlMessage env xml s =
     (case MissionEnded_of_xml env (text_str xml) of
        Inl e \<Rightarrow>
          (Inr (), push_error (xml\<lparr>text_str := schema_error_text ''MissionEnded'' e xml\<rparr>) s)
      | Inr mission_ended \<Rightarrow>
          (case process_mission_ended env xml mission_ended s of
             (Inl e, s) \<Rightarrow> (Inl e, s)
           | (Inr u, s) \<Rightarrow> (Inr (), push_message xml (close s))))"
  using assms by (simp add: onMissionControlMessage_def)

lemma onMissionControlMessage_messages:
  "mission_control_messages (world_state (snd (onMissionControlMessage env xml s))) =
     mission_control_messages (world_state s) @
     (case read_xml env (text_str xml) of
        Inl e \<Rightarrow> []
      | Inr [] \<Rightarrow> []
      | Inr (root_node_name # others) \<Rightarrow>
          if \<not> is_mission_running (world_state s) \<and> root_node_name = ''MissionInit'' then
            (case MissionInitSpec_of_xml env (text_str xml) of
               Inl e \<Rightarrow> []
             | Inr mi \<Rightarrow> if getClientCommandsPort mi = 0 then [] else [xml])
          else if root_node_name = ''MissionEnded'' then
            (case MissionEnded_of_xml env (text_str xml) of
               Inl e \<Rightarrow> []
             | Inr mission_ended \<Rightarrow>
                 if is_mission_running (world_state s) \<and> Reward mission_ended \<noteq> None
                    \<and> rewards_server s = None
                 then [] else [xml])
          else if root_node_name = ''ping'' then [xml]
          else [])"
proof (cases "read_xml env (text_str xml)")
  case (Inl e)
  then show ?thesis by (simp add: onMissionControlMessage_def)
next
  case (Inr pt)
  show ?thesis
  proof (cases pt)
    case Nil
    with Inr show ?thesis by (simp add: onMissionControlMessage_def)
  next
    case (Cons root_node_name others)
    consider (init) "\<not> is_mission_running (world_state s) \<and> root_node_name = ''MissionInit''"
      | (ended) "root_node_name = ''MissionEnded''"
      | (ping) "root_node_name = ''ping''"
      | (other) "\<not> (\<not> is_mission_running (world_state s) \<and> root_node_name = ''MissionInit'')"
          "root_node_name \<noteq> ''MissionEnded''" "root_node_name \<noteq> ''ping''"
      by blast
    then show ?thesis
    proof cases
      case init
      with Inr Cons show ?thesis
        by (cases "MissionInitSpec_of_xml env (text_str xml)")
           (simp_all add: onMissionControlMessage_def openCommandsConnection_def Let_def)
    next
      case ended
      have rd: "read_xml env (text_str xml) = Inr (''MissionEnded'' # others)"
        using Inr Cons ended by simp
      show ?thesis
      proof (cases "MissionEnded_of_xml env (text_str xml)")
        case (Inl e)
        with rd show ?thesis
          by (simp add: onMissionControlMessage_ended)
      next
        case (Inr mission_ended)
        obtain r s1 where p: "process_mission_ended env xml mission_ended s = (r, s1)"
          by (cases "process_mission_ended env xml mission_ended s")
        have "r = fst (process_mission_ended env xml mission_ended s)"
          and "s1 = snd (process_mission_ended env xml mission_ended s)"
          using p by simp_all
        then have r: "r = (if is_mission_running (world_state s) \<and> Reward mission_ended \<noteq> None
                              \<and> rewards_server s = None then Inl NullPointer else Inr ())"
          and m: "mission_control_messages (world_state s1) = mission_control_messages (world_state s)"
          by (simp_all add: process_mission_ended_fst process_mission_ended_mcm)
        from rd Inr p r m show ?thesis
          by (simp add: onMissionControlMessage_ended split: if_splits)
      qed
    next
      case ping
      with Inr Cons show ?thesis by (simp add: onMissionControlMessage_def)
    next
      case other
      with Inr Cons show ?thesis by (auto simp: onMissionControlMessage_def)
    qed
  qed
qed


lemma onMissionControlMessage_errors:
  "errors (world_state (snd (onMissionControlMessage env xml s))) =
     errors (world_state s) @
     (case read_xml env (text_str xml) of
        Inl e_what \<Rightarrow>
          [xml\<lparr>text_str := ''Error parsing mission control message as XML: '' @ e_what @ '':''
                   @ newline @ substr (text_str xml) 0 20 @ ''...'' @ newline\<rparr>]
      | Inr [] \<Rightarrow> [xml\<lparr>text_str := ''Empty XML string in mission control message''\<rparr>]
      | Inr (root_node_name # others) \<Rightarrow>
          if \<not> is_mission_running (world_state s) \<and> root_node_name = ''MissionInit'' then
            (case MissionInitSpec_of_xml env (text_str xml) of
               Inl e \<Rightarrow> [xml\<lparr>text_str := schema_error_text ''MissionInit'' e xml\<rparr>]
             | Inr mi \<Rightarrow> [])
          else if root_node_name = ''MissionEnded'' then
            (case MissionEnded_of_xml env (text_str xml) of
               Inl e \<Rightarrow> [xml\<lparr>text_str := schema_error_text ''MissionEnded'' e xml\<rparr>]
             | Inr mission_ended \<Rightarrow>
                 (case Status mission_ended of
                    ENDED \<Rightarrow> []
                  | PLAYER_DIED \<Rightarrow> []
                  | OTHER_RESULT n \<Rightarrow>
                      [xml\<lparr>text_str := ''Mission ended abnormally: ''
                               @ HumanReadableStatus mission_ended\<rparr>]))
          else if root_node_name = ''ping'' then []
          else [xml\<lparr>text_str := ''Unknown mission control message root node or at wrong time: ''
                        @ root_node_name @ '' :'' @ substr (text_str xml) 0 200 @ ''...''\<rparr>])"
proof (cases "read_xml env (text_str xml)")
  case (Inl e)
  then show ?thesis by (simp add: onMissionControlMessage_def)
next
  case (Inr pt)
  show ?thesis
  proof (cases pt)
    case Nil
    with Inr show ?thesis by (simp add: onMissionControlMessage_def)
  next
    case (Cons root_node_name others)
    consider (init) "\<not> is_mission_running (world_state s) \<and> root_node_name = ''MissionInit''"
      | (ended) "root_node_name = ''MissionEnded''"
      | (ping) "root_node_name = ''ping''"
      | (other) "\<not> (\<not> is_mission_running (world_state s) \<and> root_node_name = ''MissionInit'')"
          "root_node_name \<noteq> ''MissionEnded''" "root_node_name \<noteq> ''ping''"
      by blast
    then show ?thesis
    proof cases
      case init
      with Inr Cons show ?thesis
        by (cases "MissionInitSpec_of_xml env (text_str xml)")
           (simp_all add: onMissionControlMessage_def openCommandsConnection_def Let_def)
    next
      case ended
      have rd: "read_xml env (text_str xml) = Inr (''MissionEnded'' # others)"
        using Inr Cons ended by simp
      show ?thesis
      proof (cases "MissionEnded_of_xml env (text_str xml)")
        case (Inl e)
        with rd show ?thesis
          by (simp add: onMissionControlMessage_ended)
      next
        case (Inr mission_ended)
        obtain r s1 where p: "process_mission_ended env xml mission_ended s = (r, s1)"
          by (cases "process_mission_ended env xml mission_ended s")
        have "s1 = snd (process_mission_ended env xml mission_ended s)"
          using p by simp
        then have m: "errors (world_state s1) = errors (world_state s) @
            (case Status mission_ended of
               ENDED \<Rightarrow> []
             | PLAYER_DIED \<Rightarrow> []
             | OTHER_RESULT n \<Rightarrow>
                 [xml\<lparr>text_str := ''Mission ended abnormally: '' @ HumanReadableStatus mission_ended\<rparr>])"
          by (simp add: process_mission_ended_errors)
        from rd Inr p m show ?thesis
          by (cases r) (simp_all add: onMissionControlMessage_ended)
      qed
    next
      case ping
      with Inr Cons show ?thesis by (simp add: onMissionControlMessage_def)
    next
      case other
      with Inr Cons show ?thesis by (auto simp: onMissionControlMessage_def)
    qed
  qed
qed


lemma push_error_alt:
  "push_error e s = s\<lparr>world_state := (world_state s)\<lparr>errors := errors (world_state (push_error e s))\<rparr>\<rparr>"
  by (simp add: push_error_def)

lemma onMissionControlMessage_early_return:
  assumes "fst (onMissionControlMessage env xml s) = Inr ()"
    and "mission_control_messages (world_state (snd (onMissionControlMessage env xml s))) =
           mission_control_messages (world_state s)"
  shows "snd (onMissionControlMessage env xml s) =
           s\<lparr>world_state := (world_state s)\<lparr>errors :=
               errors (world_state (snd (onMissionControlMessage env xml s)))\<rparr>\<rparr>"
proof (cases "read_xml env (text_str xml)")
  case (Inl e)
  then show ?thesis by (simp add: onMissionControlMessage_def push_error_def)
next
  case (Inr pt)
  show ?thesis
  proof (cases pt)
    case Nil
    with Inr show ?thesis by (simp add: onMissionControlMessage_def push_error_def)
  next
    case (Cons root_node_name others)
    consider (init) "\<not> is_mission_running (world_state s) \<and> root_node_name = ''MissionInit''"
      | (ended) "root_node_name = ''MissionEnded''"
      | (ping) "root_node_name = ''ping''"
      | (other) "\<not> (\<not> is_mission_running (world_state s) \<and> root_node_name = ''MissionInit'')"
          "root_node_name \<noteq> ''MissionEnded''" "root_node_name \<noteq> ''ping''"
      by blast
    then show ?thesis
    proof cases
      case init
      show ?thesis
      proof (cases "MissionInitSpec_of_xml env (text_str xml)")
        case (Inl e)
        with Inr Cons init show ?thesis
          by (simp add: onMissionControlMessage_def push_error_def)
      next
        case r: (Inr mi)
        with Inr Cons init assms show ?thesis
          by (simp add: onMissionControlMessage_def openCommandsConnection_def Let_def
                split: if_splits)
      qed
    next
      case ended
      have rd: "read_xml env (text_str xml) = Inr (''MissionEnded'' # others)"
        using Inr Cons ended by simp
      show ?thesis
      proof (cases "MissionEnded_of_xml env (text_str xml)")
        case (Inl e)
        with rd show ?thesis
          by (simp add: onMissionControlMessage_ended push_error_def)
      next
        case (Inr mission_ended)
        obtain r s1 where p: "process_mission_ended env xml mission_ended s = (r, s1)"
          by (cases "process_mission_ended env xml mission_ended s")
        have "s1 = snd (process_mission_ended env xml mission_ended s)"
          using p by simp
        then have m: "mission_control_messages (world_state s1) =
            mission_control_messages (world_state s)"
          by (simp add: process_mission_ended_mcm)
        from rd Inr p m assms show ?thesis
          by (cases r) (simp_all add: onMissionControlMessage_ended)
      qed
    next
      case ping
      with Inr Cons assms show ?thesis by (simp add: onMissionControlMessage_def)
    next
      case other
      with Inr Cons show ?thesis by (auto simp: onMissionControlMessage_def push_error_def)
    qed
  qed
qed

text \<open>
  C7 (amended). The handler appends the message, verbatim, exactly when it runs to its
  end: for a \<^verbatim>\<open>ping\<close>; for a \<^verbatim>\<open>MissionInit\<close> received while no mission is
  running whose document validates and names a commands port; for a
  \<^verbatim>\<open>MissionEnded\<close> whose document validates, whatever its status (short of the null
  rewards listener that a running mission never has). Every message that makes the
  handler return early (malformed XML, empty document, unknown or out-of-order root
  element, a \<^verbatim>\<open>MissionInit\<close> or \<^verbatim>\<open>MissionEnded\<close> document that does not validate)
  is recorded as exactly one entry of the error sequence and in nothing else: the
  mission control messages and the rest of the host are as they were. The entries
  added to the error sequence are given for every message (the only other one is
  that of an abnormal status of a valid \<^verbatim>\<open>MissionEnded\<close>).
\<close>

theorem mission_control_message_appended:
  "mission_control_messages (world_state (snd (onMissionControlMessage env xml s))) =
     mission_control_messages (world_state s) @
     (case read_xml env (text_str xml) of
        Inl e \<Rightarrow> []
      | Inr [] \<Rightarrow> []
      | Inr (root_node_name # others) \<Rightarrow>
          if \<not> is_mission_running (world_state s) \<and> root_node_name = ''MissionInit'' then
            (case MissionInitSpec_of_xml env (text_str xml) of
               Inl e \<Rightarrow> []
             | Inr mi \<Rightarrow> if getClientCommandsPort mi = 0 then [] else [xml])
          else if root_node_name = ''MissionEnded'' then
            (case MissionEnded_of_xml env (text_str xml) of
               Inl e \<Rightarrow> []
             | Inr mission_ended \<Rightarrow>
                 if is_mission_running (world_state s) \<and> Reward mission_ended \<noteq> None
                    \<and> rewards_server s = None
                 then [] else [xml])
          else if root_node_name = ''ping'' then [xml]
          else [])
   \<and> errors (world_state (snd (onMissionControlMessage env xml s))) =
     errors (world_state s) @
     (case read_xml env (text_str xml) of
        Inl e_what \<Rightarrow>
          [xml\<lparr>text_str := ''Error parsing mission control message as XML: '' @ e_what @ '':''
                   @ newline @ substr (text_str xml) 0 20 @ ''...'' @ newline\<rparr>]
      | Inr [] \<Rightarrow> [xml\<lparr>text_str := ''Empty XML string in mission control message''\<rparr>]
      | Inr (root_node_name # others) \<Rightarrow>
          if \<not> is_mission_running (world_state s) \<and> root_node_name = ''MissionInit'' then
            (case MissionInitSpec_of_xml env (text_str xml) of
               Inl e \<Rightarrow> [xml\<lparr>text_str := schema_error_text ''MissionInit'' e xml\<rparr>]
             | Inr mi \<Rightarrow> [])
          else if root_node_name = ''MissionEnded'' then
            (case MissionEnded_of_xml env (text_str xml) of
               Inl e \<Rightarrow> [xml\<lparr>text_str := schema_error_text ''MissionEnded'' e xml\<rparr>]
             | Inr mission_ended \<Rightarrow>
                 (case Status mission_ended of
                    ENDED \<Rightarrow> []
                  | PLAYER_DIED \<Rightarrow> []
                  | OTHER_RESULT n \<Rightarrow>
                      [xml\<lparr>text_str := ''Mission ended abnormally: ''
                               @ HumanReadableStatus mission_ended\<rparr>]))
          else if root_node_name = ''ping'' then []
          else [xml\<lparr>text_str := ''Unknown mission control message root node or at wrong time: ''
                        @ root_node_name @ '' :'' @ substr (text_str xml) 0 200 @ ''...''\<rparr>])
   \<and> (fst (onMissionControlMessage env xml s) = Inr ()
        \<and> mission_control_messages (world_state (snd (onMissionControlMessage env xml s))) =
            mission_control_messages (world_state s) \<longrightarrow>
      snd (onMissionControlMessage env xml s) =
        s\<lparr>world_state := (world_state s)\<lparr>errors :=
            errors (world_state (snd (onMissionControlMessage env xml s)))\<rparr>\<rparr>)"
proof (intro conjI impI)
  show "mission_control_messages (world_state (snd (onMissionControlMessage env xml s))) =
     mission_control_messages (world_state s) @
     (case read_xml env (text_str xml) of
        Inl e \<Rightarrow> []
      | Inr [] \<Rightarrow> []
      | Inr (root_node_name # others) \<Rightarrow>
          if \<not> is_mission_running (world_state s) \<and> root_node_name = ''MissionInit'' then
            (case MissionInitSpec_of_xml env (text_str xml) of
               Inl e \<Rightarrow> []
             | Inr mi \<Rightarrow> if getClientCommandsPort mi = 0 then [] else [xml])
          else if root_node_name = ''MissionEnded'' then
            (case MissionEnded_of_xml env (text_str xml) of
               Inl e \<Rightarrow> []
             | Inr mission_ended \<Rightarrow>
                 if is_mission_running (world_state s) \<and> Reward mission_ended \<noteq> None
                    \<and> rewards_server s = None
                 then [] else [xml])
          else if root_node_name = ''ping'' then [xml]
          else [])"
    by (rule onMissionControlMessage_messages)
next
  show "errors (world_state (snd (onMissionControlMessage env xml s))) =
     errors (world_state s) @
     (case read_xml env (text_str xml) of
        Inl e_what \<Rightarrow>
          [xml\<lparr>text_str := ''Error parsing mission control message as XML: '' @ e_what @ '':''
                   @ newline @ substr (text_str xml) 0 20 @ ''...'' @ newline\<rparr>]
      | Inr [] \<Rightarrow> [xml\<lparr>text_str := ''Empty XML string in mission control message''\<rparr>]
      | Inr (root_node_name # others) \<Rightarrow>
          if \<not> is_mission_running (world_state s) \<and> root_node_name = ''MissionInit'' then
            (case MissionInitSpec_of_xml env (text_str xml) of
               Inl e \<Rightarrow> [xml\<lparr>text_str := schema_error_text ''MissionInit'' e xml\<rparr>]
             | Inr mi \<Rightarrow> [])
          else if root_node_name = ''MissionEnded'' then
            (case MissionEnded_of_xml env (text_str xml) of
               Inl e \<Rightarrow> [xml\<lparr>text_str := schema_error_text ''MissionEnded'' e xml\<rparr>]
             | Inr mission_ended \<Rightarrow>
                 (case Status mission_ended of
                    ENDED \<Rightarrow> []
                  | PLAYER_DIED \<Rightarrow> []
                  | OTHER_RESULT n \<Rightarrow>
                      [xml\<lparr>text_str := ''Mission ended abnormally: ''
                               @ HumanReadableStatus mission_ended\<rparr>]))
          else if root_node_name = ''ping'' then []
          else [xml\<lparr>text_str := ''Unknown mission control message root node or at wrong time: ''
                        @ root_node_name @ '' :'' @ substr (text_str xml) 0 200 @ ''...''\<rparr>])"
    by (rule onMissionControlMessage_errors)
next
  assume "fst (onMissionControlMessage env xml s) = Inr ()
        \<and> mission_control_messages (world_state (snd (onMissionControlMessage env xml s))) =
            mission_control_messages (world_state s)"
  then show "snd (onMissionControlMessage env xml s) =
        s\<lparr>world_state := (world_state s)\<lparr>errors :=
            errors (world_state (snd (onMissionControlMessage env xml s)))\<rparr>\<rparr>"
    using onMissionControlMessage_early_return [of env xml s] by blast
qed

theorem mission_control_message_appended_witness:
  "onMissionControlMessage example_env \<lparr>timestamp = 1, text_str = ''garbage''\<rparr>
       (AgentHost_new :: (int, nat) AgentHost) =
     (Inr (),
      AgentHost_new\<lparr>world_state := WorldState_new\<lparr>errors :=
        [\<lparr>timestamp = 1,
          text_str = ''Error parsing mission control message as XML: expected <:'' @ newline
                      @ ''garbage...'' @ newline\<rparr>]\<rparr>\<rparr>)
   \<and> mission_control_messages (world_state (snd (onMissionControlMessage example_env
       \<lparr>timestamp = 2, text_str = ''<ping>''\<rparr> (AgentHost_new :: (int, nat) AgentHost)))) =
     [\<lparr>timestamp = 2, text_str = ''<ping>''\<rparr>]
   \<and> errors (world_state (snd (onMissionControlMessage example_env
       \<lparr>timestamp = 2, text_str = ''<ping>''\<rparr> (AgentHost_new :: (int, nat) AgentHost)))) = []
   \<and> mission_control_messages (world_state (snd (onMissionControlMessage example_env
       \<lparr>timestamp = 3, text_str = ''<MissionEnded>CRASHED''\<rparr> example_running))) =
     [\<lparr>timestamp = 3, text_str = ''<MissionEnded>CRASHED''\<rparr>]
   \<and> errors (world_state (snd (onMissionControlMessage example_env
       \<lparr>timestamp = 3, text_str = ''<MissionEnded>CRASHED''\<rparr> example_running))) =
     [\<lparr>timestamp = 3, text_str = ''Mission ended abnormally: crashed''\<rparr>]
   \<and> mission_control_messages (world_state (snd (onMissionControlMessage example_env
       \<lparr>timestamp = 4, text_str = ''<MissionInit>''\<rparr> example_running))) = []
   \<and> errors (world_state (snd (onMissionControlMessage example_env
       \<lparr>timestamp = 4, text_str = ''<MissionInit>''\<rparr> example_running))) =
     [\<lparr>timestamp = 4,
       text_str = ''Unknown mission control message root node or at wrong time: MissionInit :<MissionInit>...''\<rparr>]"
  using mission_control_message_appended
          [of example_env "\<lparr>timestamp = 1, text_str = ''garbage''\<rparr>"
              "AgentHost_new :: (int, nat) AgentHost"]
        mission_control_message_appended
          [of example_env "\<lparr>timestamp = 2, text_str = ''<ping>''\<rparr>"
              "AgentHost_new :: (int, nat) AgentHost"]
        mission_control_message_appended
          [of example_env "\<lparr>timestamp = 3, text_str = ''<MissionEnded>CRASHED''\<rparr>" example_running]
        mission_control_message_appended
          [of example_env "\<lparr>timestamp = 4, text_str = ''<MissionInit>''\<rparr>" example_running]
  by (simp add: handler_defs example_defs substr_def)

lemma close_idem: "close (close s) = close s"
  by (cases "video_server s"; cases "observations_server s"; cases "rewards_server s")
     (simp_all add: close_def string_stopRecording_def video_stopRecording_def)

lemma close_push_message: "close (push_message xml s) = push_message xml (close s)"
  by (simp add: close_def push_message_def)

text \<open>
  As stated, C8 fails: while a mission is running, a \<^verbatim>\<open>MissionEnded\<close> message whose
  document does not validate records one error entry and leaves the mission running
  and the commands connection open: no teardown takes place.
\<close>

theorem mission_ended_parse_failure_no_teardown:
  "is_mission_running (world_state example_running)
   \<and> read_xml example_env ''<MissionEnded>garbage'' = Inr [''MissionEnded'']
   \<and> MissionEnded_of_xml example_env ''<MissionEnded>garbage'' =
       Inl \<lparr>what = ''invalid'', diagnostics = ''no status''\<rparr>
   \<and> is_mission_running (world_state (snd (onMissionControlMessage example_env
       \<lparr>timestamp = 5, text_str = ''<MissionEnded>garbage''\<rparr> example_running)))
   \<and> commands_connection (snd (onMissionControlMessage example_env
       \<lparr>timestamp = 5, text_str = ''<MissionEnded>garbage''\<rparr> example_running)) =
       Some (''10.0.0.1'', 10001)
   \<and> snd (onMissionControlMessage example_env
       \<lparr>timestamp = 5, text_str = ''<MissionEnded>garbage''\<rparr> example_running) \<noteq>
     close (snd (onMissionControlMessage example_env
       \<lparr>timestamp = 5, text_str = ''<MissionEnded>garbage''\<rparr> example_running))
   \<and> length (errors (world_state (snd (onMissionControlMessage example_env
       \<lparr>timestamp = 5, text_str = ''<MissionEnded>garbage''\<rparr> example_running)))) = 1"
  by (simp add: handler_defs example_defs)

text \<open>
  C8 (amended). For a message whose root element is \<^verbatim>\<open>MissionEnded\<close>: when the
  document validates, the handler tears down (the resulting state is one that
  \<open>close\<close> leaves as it is, and the mission is not running), whatever the status, and
  an abnormal status records exactly one error entry; when the document does not
  validate, exactly one error entry is recorded and nothing else changes, so no
  teardown takes place and \<open>is_mission_running\<close> keeps its value.
\<close>

theorem mission_ended_teardown:
  assumes "read_xml env (text_str xml) = Inr (''MissionEnded'' # others)"
  shows "(\<forall>e. MissionEnded_of_xml env (text_str xml) = Inl e \<longrightarrow>
            onMissionControlMessage env xml s =
              (Inr (),
               s\<lparr>world_state := (world_state s)\<lparr>errors := errors (world_state s) @
                    [\<lparr>timestamp = timestamp xml,
                      text_str = schema_error_text ''MissionEnded'' e xml\<rparr>]\<rparr>\<rparr>))
       \<and> (\<forall>mission_ended.
            MissionEnded_of_xml env (text_str xml) = Inr mission_ended
            \<and> (is_mission_running (world_state s) \<and> Reward mission_ended \<noteq> None
                 \<longrightarrow> rewards_server s \<noteq> None) \<longrightarrow>
            fst (onMissionControlMessage env xml s) = Inr ()
            \<and> \<not> is_mission_running (world_state (snd (onMissionControlMessage env xml s)))
            \<and> close (snd (onMissionControlMessage env xml s)) = snd (onMissionControlMessage env xml s)
            \<and> errors (world_state (snd (onMissionControlMessage env xml s))) =
                errors (world_state s) @
                (case Status mission_ended of
                   ENDED \<Rightarrow> []
                 | PLAYER_DIED \<Rightarrow> []
                 | OTHER_RESULT n \<Rightarrow>
                     [\<lparr>timestamp = timestamp xml,
                       text_str = ''Mission ended abnormally: '' @ HumanReadableStatus mission_ended\<rparr>]))"
proof (intro conjI allI impI)
  fix e assume "MissionEnded_of_xml env (text_str xml) = Inl e"
  with assms show "onMissionControlMessage env xml s =
      (Inr (),
       s\<lparr>world_state := (world_state s)\<lparr>errors := errors (world_state s) @
            [\<lparr>timestamp = timestamp xml, text_str = schema_error_text ''MissionEnded'' e xml\<rparr>]\<rparr>\<rparr>)"
    by (simp add: onMissionControlMessage_ended push_error_def push_back_def)
next
  fix mission_ended
  assume a: "MissionEnded_of_xml env (text_str xml) = Inr mission_ended
            \<and> (is_mission_running (world_state s) \<and> Reward mission_ended \<noteq> None
                 \<longrightarrow> rewards_server s \<noteq> None)"
  obtain r s1 where p: "process_mission_ended env xml mission_ended s = (r, s1)"
    by (cases "process_mission_ended env xml mission_ended s")
  have "r = fst (process_mission_ended env xml mission_ended s)"
    and s1: "s1 = snd (process_mission_ended env xml mission_ended s)"
    using p by simp_all
  with a have r: "r = Inr ()"
    by (auto simp: process_mission_ended_fst)
  have res: "onMissionControlMessage env xml s = (Inr (), push_message xml (close s1))"
    using assms a p r by (simp add: onMissionControlMessage_ended)
  show "fst (onMissionControlMessage env xml s) = Inr ()"
    by (simp add: res)
  show "\<not> is_mission_running (world_state (snd (onMissionControlMessage env xml s)))"
    by (simp add: res)
  show "close (snd (onMissionControlMessage env xml s)) = snd (onMissionControlMessage env xml s)"
    by (simp add: res close_push_message close_idem)
  show "errors (world_state (snd (onMissionControlMessage env xml s))) =
          errors (world_state s) @
          (case Status mission_ended of
             ENDED \<Rightarrow> []
           | PLAYER_DIED \<Rightarrow> []
           | OTHER_RESULT n \<Rightarrow>
               [\<lparr>timestamp = timestamp xml,
                 text_str = ''Mission ended abnormally: '' @ HumanReadableStatus mission_ended\<rparr>])"
    by (simp add: res s1 process_mission_ended_errors split: MissionResult.splits)
qed

theorem mission_ended_teardown_witness:
  "fst (onMissionControlMessage example_env
       \<lparr>timestamp = 3, text_str = ''<MissionEnded>CRASHED''\<rparr> example_running) = Inr ()
   \<and> \<not> is_mission_running (world_state (snd (onMissionControlMessage example_env
       \<lparr>timestamp = 3, text_str = ''<MissionEnded>CRASHED''\<rparr> example_running)))
   \<and> errors (world_state (snd (onMissionControlMessage example_env
       \<lparr>timestamp = 3, text_str = ''<MissionEnded>CRASHED''\<rparr> example_running))) =
       [\<lparr>timestamp = 3, text_str = ''Mission ended abnormally: crashed''\<rparr>]
   \<and> onMissionControlMessage example_env
       \<lparr>timestamp = 5, text_str = ''<MissionEnded>garbage''\<rparr> example_running =
       (Inr (),
        example_running\<lparr>world_state := (world_state example_running)\<lparr>errors :=
          [\<lparr>timestamp = 5,
            text_str = ''Error parsing MissionEnded message XML: invalid : no status:<MissionEnded>garbag...''\<rparr>]\<rparr>\<rparr>)"
  using mission_ended_teardown
          [where env = example_env and xml = "\<lparr>timestamp = 3, text_str = ''<MissionEnded>CRASHED''\<rparr>"
             and others = "[]" and s = example_running]
        mission_ended_teardown
          [where env = example_env and xml = "\<lparr>timestamp = 5, text_str = ''<MissionEnded>garbage''\<rparr>"
             and others = "[]" and s = example_running]
  by (simp add: example_defs schema_error_text_def substr_def)

section \<open>Starting a mission while one is running\<close>




section \<open>Properties of client discovery\<close>

lemma smod_nonneg:
  fixes a b :: int
  assumes "0 \<le> a" "0 < b"
  shows "a smod b = a mod b"
  using assms by (simp add: smod_int_alt_def sgn_if)

lemma probe_index:
  assumes "0 \<le> role" "0 < length pool"
  shows "(int i + role) smod int (length pool) = int ((i + nat role) mod length pool)"
proof -
  have eq: "int i + role = int (i + nat role)"
    using assms by simp
  have "(int i + role) smod int (length pool) = (int i + role) mod int (length pool)"
    using assms by (simp add: smod_nonneg)
  also have "\<dots> = int (i + nat role) mod int (length pool)"
    by (simp only: eq)
  also have "\<dots> = int ((i + nat role) mod length pool)"
    by (simp only: zmod_int)
  finally show ?thesis .
qed

declare findClient_loop.simps [simp del]

lemma findClient_loop_Cons:
  assumes "0 \<le> current_role s" "current_mission_init s = Some mi" "0 < length pool"
  shows "findClient_loop env pool (i # rest) s =
     (let item = pool ! ((i + nat (current_role s)) mod length pool);
          mi = mi\<lparr>getClientAddress := ip_address item, getClientMissionControlPort := port item\<rparr>;
          s1 = s\<lparr>current_mission_init := Some mi\<rparr>
      in case generateMissionInit env mi of
           Inl e \<Rightarrow> (Some (Inl e), s1)
         | Inr generated_xml \<Rightarrow>
             (let r = SendStringAndGetShortReply env (io_service s) item (generated_xml @ newline);
                  s2 = s1\<lparr>io_service := io_service s @
                          [\<lparr>asked = item, request = generated_xml @ newline, reply = r\<rparr>]\<rparr>
              in if r = Some ''MALMOOK'' then (Some (Inr ()), s2)
                 else findClient_loop env pool rest s2))"
proof -
  have k: "(int i + current_role s) smod int (length pool) =
             int ((i + nat (current_role s)) mod length pool)"
    using assms by (simp add: probe_index)
  have lt: "(i + nat (current_role s)) mod length pool < length pool"
    using assms by simp
  show ?thesis
    using assms(2) lt
    by (simp add: findClient_loop.simps k send_request_def Let_def split: sum.splits option.splits)
qed

lemma findClient_loop_trace:
  assumes "0 \<le> current_role s" "current_mission_init s \<noteq> None" "0 < length pool"
  shows "\<exists>new. io_service (snd (findClient_loop env pool is s)) = io_service s @ new
      \<and> prefix (map asked new) (map (\<lambda>i. pool ! ((i + nat (current_role s)) mod length pool)) is)
      \<and> (fst (findClient_loop env pool is s) = Some (Inr ()) \<longrightarrow>
            new \<noteq> [] \<and> reply (last new) = Some ''MALMOOK'')
      \<and> (\<forall>e \<in> set (butlast new). reply e \<noteq> Some ''MALMOOK'')
      \<and> (fst (findClient_loop env pool is s) \<noteq> Some (Inr ()) \<longrightarrow>
            (\<forall>e \<in> set new. reply e \<noteq> Some ''MALMOOK''))
      \<and> (fst (findClient_loop env pool is s) = None \<longrightarrow>
            map asked new = map (\<lambda>i. pool ! ((i + nat (current_role s)) mod length pool)) is)
      \<and> (fst (findClient_loop env pool is s) = None
          \<or> fst (findClient_loop env pool is s) = Some (Inr ())
          \<or> (\<exists>e x. fst (findClient_loop env pool is s) = Some (Inl (GeneratedXMLInvalid e x))))"
  using assms
proof (induction "is" arbitrary: s)
  case Nil
  show ?case by (simp add: findClient_loop.simps)
next
  case (Cons i rest)
  from Cons.prems obtain mi where mi: "current_mission_init s = Some mi" by auto
  define item where "item = pool ! ((i + nat (current_role s)) mod length pool)"
  define mi' where
    "mi' = mi\<lparr>getClientAddress := ip_address item, getClientMissionControlPort := port item\<rparr>"
  define s1 where "s1 = s\<lparr>current_mission_init := Some mi'\<rparr>"
  note step = findClient_loop_Cons [OF Cons.prems(1) mi Cons.prems(3), of env i rest,
      unfolded Let_def, folded item_def, folded mi'_def, folded s1_def]
  show ?case
  proof (cases "generateMissionInit env mi'")
    case (Inl e)
    then have "findClient_loop env pool (i # rest) s = (Some (Inl e), s1)"
      by (simp add: step)
    moreover have "\<exists>e' x. e = GeneratedXMLInvalid e' x"
      using Inl by (auto simp: generateMissionInit_def Let_def split: sum.splits)
    ultimately show ?thesis
      by (auto simp: s1_def)
  next
    case (Inr generated_xml)
    define r where "r = SendStringAndGetShortReply env (io_service s) item (generated_xml @ newline)"
    define ex where "ex = \<lparr>asked = item, request = generated_xml @ newline, reply = r\<rparr>"
    define s2 where "s2 = s1\<lparr>io_service := io_service s @ [ex]\<rparr>"
    have step2: "findClient_loop env pool (i # rest) s =
        (if r = Some ''MALMOOK'' then (Some (Inr ()), s2) else findClient_loop env pool rest s2)"
      using Inr by (simp add: step r_def ex_def s2_def)
    show ?thesis
    proof (cases "r = Some ''MALMOOK''")
      case True
      then have "findClient_loop env pool (i # rest) s = (Some (Inr ()), s2)"
        by (simp add: step2)
      then show ?thesis
        using True
        by (intro exI [of _ "[ex]"]) (simp add: s2_def s1_def ex_def item_def)
    next
      case False
      have eq: "findClient_loop env pool (i # rest) s = findClient_loop env pool rest s2"
        using False by (simp add: step2)
      have s2: "current_role s2 = current_role s" "current_mission_init s2 \<noteq> None"
        "io_service s2 = io_service s @ [ex]"
        by (simp_all add: s2_def s1_def)
      have "0 \<le> current_role s2"
        using Cons.prems(1) s2 by simp
      from Cons.IH [OF this s2(2) Cons.prems(3)]
      obtain new where new:
        "io_service (snd (findClient_loop env pool rest s2)) = io_service s2 @ new"
        "prefix (map asked new) (map (\<lambda>i. pool ! ((i + nat (current_role s)) mod length pool)) rest)"
        "fst (findClient_loop env pool rest s2) = Some (Inr ()) \<longrightarrow>
            new \<noteq> [] \<and> reply (last new) = Some ''MALMOOK''"
        "\<forall>e \<in> set (butlast new). reply e \<noteq> Some ''MALMOOK''"
        "fst (findClient_loop env pool rest s2) \<noteq> Some (Inr ()) \<longrightarrow>
            (\<forall>e \<in> set new. reply e \<noteq> Some ''MALMOOK'')"
        "fst (findClient_loop env pool rest s2) = None \<longrightarrow>
            map asked new = map (\<lambda>i. pool ! ((i + nat (current_role s)) mod length pool)) rest"
        "fst (findClient_loop env pool rest s2) = None
          \<or> fst (findClient_loop env pool rest s2) = Some (Inr ())
          \<or> (\<exists>e x. fst (findClient_loop env pool rest s2) = Some (Inl (GeneratedXMLInvalid e x)))"
        unfolding s2(1) by (elim exE conjE) (rule that; assumption)
      have ex: "asked ex = item" "reply ex \<noteq> Some ''MALMOOK''"
        using False by (simp_all add: ex_def)
      show ?thesis
        unfolding eq
      proof (intro exI [of _ "ex # new"] conjI)
        show "io_service (snd (findClient_loop env pool rest s2)) = io_service s @ ex # new"
          using new(1) s2(3) by simp
        show "prefix (map asked (ex # new))
                (map (\<lambda>i. pool ! ((i + nat (current_role s)) mod length pool)) (i # rest))"
          using new(2) ex(1) by (simp add: item_def)
        show "fst (findClient_loop env pool rest s2) = Some (Inr ()) \<longrightarrow>
                ex # new \<noteq> [] \<and> reply (last (ex # new)) = Some ''MALMOOK''"
          using new(3) by simp
        show "\<forall>e \<in> set (butlast (ex # new)). reply e \<noteq> Some ''MALMOOK''"
          using new(4) ex(2) by simp
        show "fst (findClient_loop env pool rest s2) \<noteq> Some (Inr ()) \<longrightarrow>
                (\<forall>e \<in> set (ex # new). reply e \<noteq> Some ''MALMOOK'')"
          using new(5) ex(2) by simp
        show "fst (findClient_loop env pool rest s2) = None \<longrightarrow>
                map asked (ex # new) =
                map (\<lambda>i. pool ! ((i + nat (current_role s)) mod length pool)) (i # rest)"
          using new(6) ex(1) by (simp add: item_def)
        show "fst (findClient_loop env pool rest s2) = None
          \<or> fst (findClient_loop env pool rest s2) = Some (Inr ())
          \<or> (\<exists>e x. fst (findClient_loop env pool rest s2) = Some (Inl (GeneratedXMLInvalid e x)))"
          by (fact new(7))
      qed
    qed
  qed
qed


lemma findClient_loop_documents:
  assumes "0 \<le> current_role s" "current_mission_init s = Some mi" "0 < length pool"
  shows "\<exists>new. io_service (snd (findClient_loop env pool is s)) = io_service s @ new
      \<and> length new \<le> length is
      \<and> (\<forall>j < length new. \<exists>generated_xml.
            generateMissionInit env
              (mi\<lparr>getClientAddress := ip_address (pool ! ((is ! j + nat (current_role s)) mod length pool)),
                  getClientMissionControlPort := port (pool ! ((is ! j + nat (current_role s)) mod length pool))\<rparr>)
              = Inr generated_xml
            \<and> request (new ! j) = generated_xml @ newline
            \<and> reply (new ! j) =
                SendStringAndGetShortReply env (io_service s @ take j new)
                  (pool ! ((is ! j + nat (current_role s)) mod length pool)) (generated_xml @ newline))
      \<and> (\<forall>e x. fst (findClient_loop env pool is s) = Some (Inl (GeneratedXMLInvalid e x)) \<longrightarrow>
            length new < length is
            \<and> generateMissionInit env
              (mi\<lparr>getClientAddress :=
                    ip_address (pool ! ((is ! length new + nat (current_role s)) mod length pool)),
                  getClientMissionControlPort :=
                    port (pool ! ((is ! length new + nat (current_role s)) mod length pool))\<rparr>)
              = Inl (GeneratedXMLInvalid e x))"
  using assms
proof (induction "is" arbitrary: s mi)
  case Nil
  show ?case by (simp add: findClient_loop.simps)
next
  case (Cons i rest)
  note mi = Cons.prems(2)
  define item where "item = pool ! ((i + nat (current_role s)) mod length pool)"
  define mi' where
    "mi' = mi\<lparr>getClientAddress := ip_address item, getClientMissionControlPort := port item\<rparr>"
  define s1 where "s1 = s\<lparr>current_mission_init := Some mi'\<rparr>"
  note step = findClient_loop_Cons [OF Cons.prems(1) mi Cons.prems(3), of env i rest,
      unfolded Let_def, folded item_def, folded mi'_def, folded s1_def]
  show ?case
  proof (cases "generateMissionInit env mi'")
    case (Inl e)
    then have "findClient_loop env pool (i # rest) s = (Some (Inl e), s1)"
      by (simp add: step)
    with Inl show ?thesis
      by (intro exI [of _ "[]"]) (simp add: s1_def mi'_def item_def)
  next
    case (Inr generated_xml)
    define r where "r = SendStringAndGetShortReply env (io_service s) item (generated_xml @ newline)"
    define ex where "ex = \<lparr>asked = item, request = generated_xml @ newline, reply = r\<rparr>"
    define s2 where "s2 = s1\<lparr>io_service := io_service s @ [ex]\<rparr>"
    have step2: "findClient_loop env pool (i # rest) s =
        (if r = Some ''MALMOOK'' then (Some (Inr ()), s2) else findClient_loop env pool rest s2)"
      using Inr by (simp add: step r_def ex_def s2_def)
    show ?thesis
    proof (cases "r = Some ''MALMOOK''")
      case True
      then have "findClient_loop env pool (i # rest) s = (Some (Inr ()), s2)"
        by (simp add: step2)
      with Inr show ?thesis
        by (intro exI [of _ "[ex]"]) (simp add: s2_def s1_def ex_def mi'_def item_def r_def)
    next
      case False
      have eq: "findClient_loop env pool (i # rest) s = findClient_loop env pool rest s2"
        using False by (simp add: step2)
      have s2: "current_role s2 = current_role s" "current_mission_init s2 = Some mi'"
        "io_service s2 = io_service s @ [ex]"
        by (simp_all add: s2_def s1_def)
      have "0 \<le> current_role s2"
        using Cons.prems(1) s2 by simp
      from Cons.IH [OF this s2(2) Cons.prems(3), unfolded s2(1) s2(3)]
      obtain new where new:
        "io_service (snd (findClient_loop env pool rest s2)) = (io_service s @ [ex]) @ new"
        "length new \<le> length rest"
        "\<forall>j < length new. \<exists>generated_xml.
            generateMissionInit env
              (mi'\<lparr>getClientAddress := ip_address (pool ! ((rest ! j + nat (current_role s)) mod length pool)),
                  getClientMissionControlPort := port (pool ! ((rest ! j + nat (current_role s)) mod length pool))\<rparr>)
              = Inr generated_xml
            \<and> request (new ! j) = generated_xml @ newline
            \<and> reply (new ! j) =
                SendStringAndGetShortReply env ((io_service s @ [ex]) @ take j new)
                  (pool ! ((rest ! j + nat (current_role s)) mod length pool)) (generated_xml @ newline)"
        "\<forall>e x. fst (findClient_loop env pool rest s2) = Some (Inl (GeneratedXMLInvalid e x)) \<longrightarrow>
            length new < length rest
            \<and> generateMissionInit env
              (mi'\<lparr>getClientAddress :=
                    ip_address (pool ! ((rest ! length new + nat (current_role s)) mod length pool)),
                  getClientMissionControlPort :=
                    port (pool ! ((rest ! length new + nat (current_role s)) mod length pool))\<rparr>)
              = Inl (GeneratedXMLInvalid e x)"
        by (elim exE conjE) (rule that; assumption)
      have upd: "mi'\<lparr>getClientAddress := a, getClientMissionControlPort := p\<rparr> =
                 mi\<lparr>getClientAddress := a, getClientMissionControlPort := p\<rparr>" for a p
        by (simp add: mi'_def)
      have ex0: "generateMissionInit env
              (mi\<lparr>getClientAddress := ip_address item, getClientMissionControlPort := port item\<rparr>)
              = Inr generated_xml"
        "request ex = generated_xml @ newline"
        "reply ex = SendStringAndGetShortReply env (io_service s) item (generated_xml @ newline)"
        using Inr by (simp_all add: mi'_def ex_def r_def)
      show ?thesis
        unfolding eq
      proof (intro exI [of _ "ex # new"] conjI allI impI)
        show "io_service (snd (findClient_loop env pool rest s2)) = io_service s @ ex # new"
          using new(1) by simp
        show "length (ex # new) \<le> length (i # rest)"
          using new(2) by simp
      next
        fix j assume j: "j < length (ex # new)"
        show "\<exists>generated_xml.
            generateMissionInit env
              (mi\<lparr>getClientAddress :=
                    ip_address (pool ! (((i # rest) ! j + nat (current_role s)) mod length pool)),
                  getClientMissionControlPort :=
                    port (pool ! (((i # rest) ! j + nat (current_role s)) mod length pool))\<rparr>)
              = Inr generated_xml
            \<and> request ((ex # new) ! j) = generated_xml @ newline
            \<and> reply ((ex # new) ! j) =
                SendStringAndGetShortReply env (io_service s @ take j (ex # new))
                  (pool ! (((i # rest) ! j + nat (current_role s)) mod length pool))
                  (generated_xml @ newline)"
        proof (cases j)
          case 0
          then show ?thesis
            using ex0 by (simp add: item_def)
        next
          case (Suc k)
          with j have "k < length new" by simp
          with new(3) show ?thesis
            unfolding upd by (simp add: Suc)
        qed
      next
        fix e x
        assume "fst (findClient_loop env pool rest s2) = Some (Inl (GeneratedXMLInvalid e x))"
        with new(4) have g: "length new < length rest"
          "generateMissionInit env
              (mi\<lparr>getClientAddress :=
                    ip_address (pool ! ((rest ! length new + nat (current_role s)) mod length pool)),
                  getClientMissionControlPort :=
                    port (pool ! ((rest ! length new + nat (current_role s)) mod length pool))\<rparr>)
              = Inl (GeneratedXMLInvalid e x)"
          unfolding upd by blast+
        from g(1) show "length (ex # new) < length (i # rest)"
          by simp
        from g(2) show "generateMissionInit env
              (mi\<lparr>getClientAddress :=
                    ip_address (pool ! (((i # rest) ! length (ex # new) + nat (current_role s)) mod length pool)),
                  getClientMissionControlPort :=
                    port (pool ! (((i # rest) ! length (ex # new) + nat (current_role s)) mod length pool))\<rparr>)
              = Inl (GeneratedXMLInvalid e x)"
          by simp
      qed
    qed
  qed
qed

lemma close_io_service [simp]: "io_service (close s) = io_service s"
  by (simp add: close_def)

text \<open>
  C5. \<open>findClient\<close>, for a role that is not negative, asks the hosts of the pool in the
  order \<open>(i + role) mod poolSize\<close> for \<open>i = 0, 1, \<dots>\<close>: the hosts of the exchanges it
  makes are a prefix of that order, each exchange sends the document generated for its
  host and records what the host replied. It succeeds exactly when some reply is
  exactly \<^verbatim>\<open>MALMOOK\<close>; that reply is then the last one, no earlier reply was the
  token, so it stopped at the first host to accept; any other reply makes it go on.
  When no reply is the token it fails: with the error of no available client after
  asking every host, or with the error of the generated document, and then only when
  the document for the next host in the order does not validate. So when the documents
  for the hosts of the pool validate, it either succeeds or has asked every host. For a
  pool of five hosts and role 3 the order is 3, 4, 0, 1, 2 (the theorem that follows
  this one).
\<close>

theorem findClient_probe_order:
  assumes "0 \<le> current_role s" "current_mission_init s = Some mi"
  shows "(let r = findClient env pool s;
             new = drop (length (io_service s)) (io_service (snd r));
             order = map (\<lambda>i. pool ! ((i + nat (current_role s)) mod length pool)) [0 ..< length pool];
             document = (\<lambda>item :: ClientInfo. generateMissionInit env
                           (mi\<lparr>getClientAddress := ip_address item,
                               getClientMissionControlPort := port item\<rparr>))
         in io_service (snd r) = io_service s @ new
          \<and> prefix (map asked new) order
          \<and> (\<forall>j < length new. \<exists>generated_xml.
                document (order ! j) = Inr generated_xml
                \<and> request (new ! j) = generated_xml @ newline
                \<and> reply (new ! j) =
                    SendStringAndGetShortReply env (io_service s @ take j new) (order ! j)
                      (generated_xml @ newline))
          \<and> (fst r = Inr () \<longleftrightarrow> (\<exists>e \<in> set new. reply e = Some ''MALMOOK''))
          \<and> (fst r = Inr () \<longrightarrow> reply (last new) = Some ''MALMOOK'')
          \<and> (\<forall>e \<in> set (butlast new). reply e \<noteq> Some ''MALMOOK'')
          \<and> (fst r = Inl NoAvailableClient \<longrightarrow> map asked new = order)
          \<and> (\<forall>e x. fst r = Inl (GeneratedXMLInvalid e x) \<longrightarrow>
                length new < length pool
                \<and> document (order ! length new) = Inl (GeneratedXMLInvalid e x))
          \<and> (fst r = Inr () \<or> fst r = Inl NoAvailableClient
              \<or> (\<exists>e x. fst r = Inl (GeneratedXMLInvalid e x)))
          \<and> ((\<forall>item \<in> set pool. \<exists>generated_xml. document item = Inr generated_xml) \<longrightarrow>
                fst r = Inr () \<or> (fst r = Inl NoAvailableClient \<and> map asked new = order)))"
proof (cases "pool = []")
  case True
  then show ?thesis
    by (simp add: findClient_def findClient_loop.simps)
next
  case False
  then have pos: "0 < length pool" by simp
  have init: "current_mission_init s \<noteq> None"
    using assms(2) by simp
  define l where "l = findClient_loop env pool [0 ..< length pool] s"
  define order where
    "order = map (\<lambda>i. pool ! ((i + nat (current_role s)) mod length pool)) [0 ..< length pool]"
  define document where
    "document = (\<lambda>item :: ClientInfo. generateMissionInit env
                   (mi\<lparr>getClientAddress := ip_address item, getClientMissionControlPort := port item\<rparr>))"
  from findClient_loop_trace [OF assms(1) init pos, of env "[0 ..< length pool]",
      folded l_def order_def]
  obtain new where new:
    "io_service (snd l) = io_service s @ new"
    "prefix (map asked new) order"
    "fst l = Some (Inr ()) \<longrightarrow> new \<noteq> [] \<and> reply (last new) = Some ''MALMOOK''"
    "\<forall>e \<in> set (butlast new). reply e \<noteq> Some ''MALMOOK''"
    "fst l \<noteq> Some (Inr ()) \<longrightarrow> (\<forall>e \<in> set new. reply e \<noteq> Some ''MALMOOK'')"
    "fst l = None \<longrightarrow> map asked new = order"
    "fst l = None \<or> fst l = Some (Inr ())
       \<or> (\<exists>e x. fst l = Some (Inl (GeneratedXMLInvalid e x)))"
    by (elim exE conjE) (rule that; assumption)
  from findClient_loop_documents [OF assms pos, of env "[0 ..< length pool]", folded l_def]
  obtain new' where new':
    "io_service (snd l) = io_service s @ new'"
    "length new' \<le> length [0 ..< length pool]"
    "\<forall>j < length new'. \<exists>generated_xml.
        generateMissionInit env
          (mi\<lparr>getClientAddress :=
                ip_address (pool ! (([0 ..< length pool] ! j + nat (current_role s)) mod length pool)),
              getClientMissionControlPort :=
                port (pool ! (([0 ..< length pool] ! j + nat (current_role s)) mod length pool))\<rparr>)
          = Inr generated_xml
        \<and> request (new' ! j) = generated_xml @ newline
        \<and> reply (new' ! j) =
            SendStringAndGetShortReply env (io_service s @ take j new')
              (pool ! (([0 ..< length pool] ! j + nat (current_role s)) mod length pool))
              (generated_xml @ newline)"
    "\<forall>e x. fst l = Some (Inl (GeneratedXMLInvalid e x)) \<longrightarrow>
        length new' < length [0 ..< length pool]
        \<and> generateMissionInit env
          (mi\<lparr>getClientAddress :=
                ip_address (pool ! (([0 ..< length pool] ! length new' + nat (current_role s)) mod length pool)),
              getClientMissionControlPort :=
                port (pool ! (([0 ..< length pool] ! length new' + nat (current_role s)) mod length pool))\<rparr>)
          = Inl (GeneratedXMLInvalid e x)"
    by (elim exE conjE) (rule that; assumption)
  have same: "new' = new"
    using new(1) new'(1) by simp
  have len: "length new \<le> length pool"
    using new'(2) by (simp add: same)
  have nth_order: "order ! j = pool ! ((j + nat (current_role s)) mod length pool)"
    if "j < length pool" for j
    using that by (simp add: order_def)
  have docs: "\<forall>j < length new. \<exists>generated_xml.
        document (order ! j) = Inr generated_xml
        \<and> request (new ! j) = generated_xml @ newline
        \<and> reply (new ! j) =
            SendStringAndGetShortReply env (io_service s @ take j new) (order ! j)
              (generated_xml @ newline)"
  proof (intro allI impI)
    fix j assume j: "j < length new"
    then have jp: "j < length pool" using len by simp
    from new'(3) [unfolded same, rule_format, OF j] jp
    show "\<exists>generated_xml.
        document (order ! j) = Inr generated_xml
        \<and> request (new ! j) = generated_xml @ newline
        \<and> reply (new ! j) =
            SendStringAndGetShortReply env (io_service s @ take j new) (order ! j)
              (generated_xml @ newline)"
      by (simp add: nth_order document_def)
  qed
  have invalid: "\<forall>e x. fst l = Some (Inl (GeneratedXMLInvalid e x)) \<longrightarrow>
        length new < length pool \<and> document (order ! length new) = Inl (GeneratedXMLInvalid e x)"
  proof (intro allI impI)
    fix e x assume "fst l = Some (Inl (GeneratedXMLInvalid e x))"
    from new'(4) [unfolded same, rule_format, OF this]
    have lt0: "length new < length [0 ..< length pool]"
      and g: "generateMissionInit env
          (mi\<lparr>getClientAddress :=
                ip_address (pool ! (([0 ..< length pool] ! length new + nat (current_role s)) mod length pool)),
              getClientMissionControlPort :=
                port (pool ! (([0 ..< length pool] ! length new + nat (current_role s)) mod length pool))\<rparr>)
          = Inl (GeneratedXMLInvalid e x)"
      by blast+
    from lt0 have lt: "length new < length pool" by simp
    from g lt
    show "length new < length pool \<and> document (order ! length new) = Inl (GeneratedXMLInvalid e x)"
      by (simp add: nth_order document_def)
  qed
  have in_pool: "order ! j \<in> set pool" if "j < length pool" for j
    using that pos by (simp add: nth_order)
  have r: "findClient env pool s =
      (case fst l of Some outcome \<Rightarrow> (outcome, snd l) | None \<Rightarrow> (Inl NoAvailableClient, close (snd l)))"
    by (simp add: findClient_def l_def split: prod.splits option.splits)
  have io: "io_service (snd (findClient env pool s)) = io_service s @ new"
    using new(1) by (simp add: r split: option.splits)
  have res: "fst (findClient env pool s) =
      (case fst l of Some outcome \<Rightarrow> outcome | None \<Rightarrow> Inl NoAvailableClient)"
    by (simp add: r split: option.splits)
  have last_in: "new \<noteq> [] \<Longrightarrow> last new \<in> set new"
    by simp
  have progress: "(\<forall>item \<in> set pool. \<exists>generated_xml. document item = Inr generated_xml) \<longrightarrow>
      (\<forall>e x. fst l \<noteq> Some (Inl (GeneratedXMLInvalid e x)))"
  proof (intro impI allI notI)
    fix e x
    assume valid: "\<forall>item \<in> set pool. \<exists>generated_xml. document item = Inr generated_xml"
      and "fst l = Some (Inl (GeneratedXMLInvalid e x))"
    with invalid have "length new < length pool"
      "document (order ! length new) = Inl (GeneratedXMLInvalid e x)"
      by blast+
    with in_pool [of "length new"] valid show False
      by auto
  qed
  show ?thesis
    unfolding Let_def io res order_def [symmetric] document_def [symmetric]
    apply (simp only: append_eq_conv_conj drop_append length_drop)
    using new(2-7) last_in docs invalid progress
    by (auto split: option.splits)
qed

lemma upt5: "[0 ..< 5] = [0, 1, 2, 3, 4]"
  by (simp add: upt_rec)

theorem findClient_probe_order_witness:
  "map asked (io_service (snd (findClient example_env (map example_host [0, 1, 2, 3, 4]) example_role3)))
     = map example_host [3, 4, 0, 1, 2]
   \<and> fst (findClient example_env (map example_host [0, 1, 2, 3, 4]) example_role3) = Inl NoAvailableClient
   \<and> map asked (io_service (snd (findClient
        (example_env_replies (\<lambda>item req. if item = example_host 3 then Some ''MALMOOKAY''
                                   else if item = example_host 0 then Some ''MALMOOK''
                                   else Some ''MALMOBUSY''))
        (map example_host [0, 1, 2, 3, 4]) example_role3)))
     = map example_host [3, 4, 0]
   \<and> fst (findClient
        (example_env_replies (\<lambda>item req. if item = example_host 3 then Some ''MALMOOKAY''
                                   else if item = example_host 0 then Some ''MALMOOK''
                                   else Some ''MALMOBUSY''))
        (map example_host [0, 1, 2, 3, 4]) example_role3) = Inr ()"
  using findClient_probe_order
          [where s = example_role3 and mi = example_mission_init and env = example_env
             and pool = "map example_host [0, 1, 2, 3, 4]"]
        findClient_probe_order
          [where s = example_role3 and mi = example_mission_init
             and env = "example_env_replies (\<lambda>item req. if item = example_host 3 then Some ''MALMOOKAY''
                                   else if item = example_host 0 then Some ''MALMOOK''
                                   else Some ''MALMOBUSY'')"
             and pool = "map example_host [0, 1, 2, 3, 4]"]
  by (simp add: example_role3_def example_defs findClient_def findClient_loop.simps upt5 send_request_def
        generateMissionInit_def close_def Let_def smod_int_alt_def)

section \<open>Properties of the reservation\<close>

declare reserve_loop.simps [simp del]

lemma reservation_request_prefix [simp]:
  "prefix ''MALMO_REQUEST_CLIENT:'' (reservation_request env mi)"
  by (simp add: reservation_request_def)

lemma reservation_request_not_cancel [simp]:
  "reservation_request env mi \<noteq> ''MALMO_CANCEL_REQUEST'' @ newline"
  by (simp add: reservation_request_def)

lemma cancel_not_reservation [simp]:
  "\<not> prefix ''MALMO_REQUEST_CLIENT:'' (''MALMO_CANCEL_REQUEST'' @ newline)"
  by simp

lemma reserve_loop_trace:
  assumes "reserve_loop env req pool reserved c s = (reserved', c', s')"
    and "prefix ''MALMO_REQUEST_CLIENT:'' req"
  shows "\<exists>new. io_service s' = io_service s @ new
      \<and> (\<forall>e \<in> set new. request e = req)
      \<and> reserved' = reserved @ map asked (filter accepted_reservation new)
      \<and> c' = c - int (length (filter accepted_reservation new))
      \<and> (c' \<noteq> 0 \<longrightarrow> map asked new = pool)"
  using assms
proof (induction pool arbitrary: reserved c s)
  case Nil
  then show ?case by (simp add: reserve_loop.simps)
next
  case (Cons item rest)
  define r where "r = SendStringAndGetShortReply env (io_service s) item req"
  define ex where "ex = \<lparr>asked = item, request = req, reply = r\<rparr>"
  define s1 where "s1 = s\<lparr>io_service := io_service s @ [ex]\<rparr>"
  have sr: "send_request env item req s = (r, s1)"
    by (simp add: send_request_def r_def ex_def s1_def Let_def)
  have io1: "io_service s1 = io_service s @ [ex]"
    by (simp add: s1_def)
  show ?case
  proof (cases "accepted_reservation ex")
    case False
    then have "reserve_loop env req (item # rest) reserved c s = reserve_loop env req rest reserved c s1"
      using Cons.prems(2)
      by (simp add: reserve_loop.simps sr accepted_reservation_def ex_def split: option.splits)
    with Cons.prems have "reserve_loop env req rest reserved c s1 = (reserved', c', s')"
      by simp
    from Cons.IH [OF this Cons.prems(2)] obtain new where
      "io_service s' = io_service s1 @ new" "\<forall>e \<in> set new. request e = req"
      "reserved' = reserved @ map asked (filter accepted_reservation new)"
      "c' = c - int (length (filter accepted_reservation new))"
      "c' \<noteq> 0 \<longrightarrow> map asked new = rest"
      by (elim exE conjE) (rule that; assumption)
    with False io1 show ?thesis
      by (intro exI [of _ "ex # new"]) (simp add: ex_def)
  next
    case True
    then obtain rep where rep: "r = Some rep" "prefix ''MALMOOK'' rep"
      by (auto simp: accepted_reservation_def ex_def split: option.splits)
    show ?thesis
    proof (cases "c - 1 = 0")
      case stop: True
      have "reserve_loop env req (item # rest) reserved c s = (push_back reserved item, c - 1, s1)"
        using rep stop by (simp add: reserve_loop.simps sr Let_def)
      with Cons.prems have "reserved' = reserved @ [item]" "c' = c - 1" "s' = s1"
        by (simp_all add: push_back_def)
      with True io1 stop show ?thesis
        by (intro exI [of _ "[ex]"]) (simp add: ex_def)
    next
      case go: False
      have "reserve_loop env req (item # rest) reserved c s =
              reserve_loop env req rest (push_back reserved item) (c - 1) s1"
        using rep go by (simp add: reserve_loop.simps sr Let_def)
      with Cons.prems have "reserve_loop env req rest (reserved @ [item]) (c - 1) s1 = (reserved', c', s')"
        by (simp add: push_back_def)
      from Cons.IH [OF this Cons.prems(2)] obtain new where
        "io_service s' = io_service s1 @ new" "\<forall>e \<in> set new. request e = req"
        "reserved' = (reserved @ [item]) @ map asked (filter accepted_reservation new)"
        "c' = c - 1 - int (length (filter accepted_reservation new))"
        "c' \<noteq> 0 \<longrightarrow> map asked new = rest"
        by (elim exE conjE) (rule that; assumption)
      with True io1 show ?thesis
        by (intro exI [of _ "ex # new"]) (simp add: ex_def)
    qed
  qed
qed

lemma cancel_loop_trace:
  "\<exists>cs. io_service (cancel_loop env items s) = io_service s @ cs
     \<and> map asked cs = items
     \<and> (\<forall>e \<in> set cs. request e = ''MALMO_CANCEL_REQUEST'' @ newline)"
proof (induction items arbitrary: s)
  case Nil
  show ?case by simp
next
  case (Cons item rest)
  define ex where "ex = \<lparr>asked = item, request = ''MALMO_CANCEL_REQUEST'' @ newline,
     reply = SendStringAndGetShortReply env (io_service s) item (''MALMO_CANCEL_REQUEST'' @ newline)\<rparr>"
  define s1 where "s1 = s\<lparr>io_service := io_service s @ [ex]\<rparr>"
  have step: "cancel_loop env (item # rest) s = cancel_loop env rest s1"
    by (simp add: send_request_def Let_def s1_def ex_def)
  from Cons.IH [of s1] obtain cs where
    "io_service (cancel_loop env rest s1) = io_service s1 @ cs" "map asked cs = rest"
    "\<forall>e \<in> set cs. request e = ''MALMO_CANCEL_REQUEST'' @ newline"
    by (elim exE conjE) (rule that; assumption)
  then show ?case
    unfolding step
    by (intro exI [of _ "ex # cs"]) (simp add: s1_def ex_def)
qed

lemma filter_accepted_cancellations:
  assumes "\<forall>e \<in> set cs. request e = ''MALMO_CANCEL_REQUEST'' @ newline"
  shows "filter accepted_reservation cs = []" "filter cancellation cs = cs"
  using assms by (auto simp: accepted_reservation_def cancellation_def filter_empty_conv)

lemma filter_cancellation_requests:
  assumes "\<forall>e \<in> set new. request e = reservation_request env mi"
  shows "filter cancellation new = []"
proof -
  have "\<not> cancellation e" if "e \<in> set new" for e
    using that assms reservation_request_not_cancel [of env mi]
    by (simp add: cancellation_def)
  then show ?thesis
    by (simp add: filter_empty_conv)
qed

lemma reserveClients_trace:
  assumes "current_mission_init s = Some mi"
  shows "\<exists>new cs. io_service (snd (reserveClients env pool c s)) = io_service s @ new @ cs
      \<and> (\<forall>e \<in> set new. request e = reservation_request env mi)
      \<and> (\<forall>e \<in> set cs. request e = ''MALMO_CANCEL_REQUEST'' @ newline)
      \<and> (if c > int (length (filter accepted_reservation new))
          then fst (reserveClients env pool c s) = Inr []
             \<and> map asked new = pool
             \<and> map asked cs = map asked (filter accepted_reservation new)
          else fst (reserveClients env pool c s) = Inr (map asked (filter accepted_reservation new))
             \<and> cs = [])"
proof -
  obtain reserved' c' s' where
    l: "reserve_loop env (reservation_request env mi) pool [] c s = (reserved', c', s')"
    by (cases "reserve_loop env (reservation_request env mi) pool [] c s") auto
  from reserve_loop_trace [OF l reservation_request_prefix] obtain new where new:
    "io_service s' = io_service s @ new" "\<forall>e \<in> set new. request e = reservation_request env mi"
    "reserved' = map asked (filter accepted_reservation new)"
    "c' = c - int (length (filter accepted_reservation new))"
    "c' \<noteq> 0 \<longrightarrow> map asked new = pool"
    by (elim exE conjE) (rule that; simp)
  show ?thesis
  proof (cases "c' > 0")
    case True
    then have r: "reserveClients env pool c s = (Inr [], cancel_loop env reserved' s')"
      using assms l by (simp add: reserveClients_def)
    from cancel_loop_trace [of env reserved' s'] obtain cs where cs:
      "io_service (cancel_loop env reserved' s') = io_service s' @ cs" "map asked cs = reserved'"
      "\<forall>e \<in> set cs. request e = ''MALMO_CANCEL_REQUEST'' @ newline"
      by (elim exE conjE) (rule that; assumption)
    from True new cs show ?thesis
      by (intro exI [of _ new] exI [of _ cs]) (simp add: r)
  next
    case False
    then have r: "reserveClients env pool c s = (Inr reserved', s')"
      using assms l by (simp add: reserveClients_def)
    from False new show ?thesis
      by (intro exI [of _ new] exI [of _ "[]"]) (simp add: r)
  qed
qed


lemma initializeOurServers_io_service [simp]:
  "io_service (initializeOurServers env mission mission_record role uid s) = io_service s"
  by (simp add: initializeOurServers_def listenForMissionControlMessages_def listenForVideo_def
        listenForRewards_def listenForObservations_def Let_def split: option.splits)

lemma initializeOurServers_mission_init [simp]:
  "current_mission_init (initializeOurServers env mission mission_record role uid s) \<noteq> None"
  by (simp add: initializeOurServers_def Let_def)

lemma reserveClients_not_enough:
  assumes "current_mission_init s \<noteq> None"
    and "c > int (length (filter accepted_reservation
            (drop (length (io_service s)) (io_service (snd (reserveClients env pool c s))))))"
  shows "fst (reserveClients env pool c s) = Inr []"
    and "map asked (filter (\<lambda>e. \<not> cancellation e)
            (drop (length (io_service s)) (io_service (snd (reserveClients env pool c s))))) = pool"
    and "map asked (filter cancellation
            (drop (length (io_service s)) (io_service (snd (reserveClients env pool c s))))) =
         map asked (filter accepted_reservation
            (drop (length (io_service s)) (io_service (snd (reserveClients env pool c s)))))"
proof -
  from assms(1) obtain mi where mi: "current_mission_init s = Some mi" by auto
  from reserveClients_trace [OF mi, of env pool c] obtain new cs where t:
    "io_service (snd (reserveClients env pool c s)) = io_service s @ new @ cs"
    "\<forall>e \<in> set new. request e = reservation_request env mi"
    "\<forall>e \<in> set cs. request e = ''MALMO_CANCEL_REQUEST'' @ newline"
    "if c > int (length (filter accepted_reservation new))
     then fst (reserveClients env pool c s) = Inr []
        \<and> map asked new = pool
        \<and> map asked cs = map asked (filter accepted_reservation new)
     else fst (reserveClients env pool c s) = Inr (map asked (filter accepted_reservation new))
        \<and> cs = []"
    by (elim exE conjE) (rule that; assumption)
  have d: "drop (length (io_service s)) (io_service (snd (reserveClients env pool c s))) = new @ cs"
    by (simp add: t(1))
  have f: "filter accepted_reservation (new @ cs) = filter accepted_reservation new"
    "filter cancellation (new @ cs) = cs"
    "filter (\<lambda>e. \<not> cancellation e) (new @ cs) = new"
    using filter_accepted_cancellations [OF t(3)] filter_cancellation_requests [OF t(2)]
    by (simp_all add: filter_empty_conv filter_id_conv)
  from assms(2) have gt: "c > int (length (filter accepted_reservation new))"
    unfolding d f by simp
  with t(4) show "fst (reserveClients env pool c s) = Inr []"
    by simp
  from gt t(4) show "map asked (filter (\<lambda>e. \<not> cancellation e)
            (drop (length (io_service s)) (io_service (snd (reserveClients env pool c s))))) = pool"
    unfolding d f by simp
  from gt t(4) show "map asked (filter cancellation
            (drop (length (io_service s)) (io_service (snd (reserveClients env pool c s))))) =
         map asked (filter accepted_reservation
            (drop (length (io_service s)) (io_service (snd (reserveClients env pool c s)))))"
    unfolding d f by simp
qed

lemma startMission_not_enough:
  assumes "\<not> is_mission_running (world_state s)" "1 < getNumberOfAgents mission"
    and "isVideoRequested mission 0 \<longrightarrow>
           getVideoWidth mission 0 mod 4 = 0 \<and> getVideoHeight mission 0 mod 2 = 0"
    and "fst (reserveClients env pool (getNumberOfAgents mission)
                (initializeOurServers env mission mission_record 0 uid s)) = Inr []"
  shows "startMission env mission pool mission_record 0 uid s =
           (Inl (NotEnoughClients (getNumberOfAgents mission)),
            snd (reserveClients env pool (getNumberOfAgents mission)
                   (initializeOurServers env mission mission_record 0 uid s)))"
proof -
  obtain s2 where r: "reserveClients env pool (getNumberOfAgents mission)
                (initializeOurServers env mission mission_record 0 uid s) = (Inr [], s2)"
    using assms(4)
    by (cases "reserveClients env pool (getNumberOfAgents mission)
                (initializeOurServers env mission mission_record 0 uid s)") auto
  show ?thesis
    using assms(1-3) by (auto simp: startMission_def Let_def r)
qed

text \<open>
  C6. When the number of clients required is greater than the number of hosts whose
  reply accepts the reservation, \<open>reserveClients\<close> has asked every host of the pool,
  sends a cancellation to every host that had accepted, in the same order, and returns
  an empty reservation. In \<open>startMission\<close> for role 0 of a mission of several agents
  (no mission running, valid video size) the same holds of the reservation it makes for
  the number of agents, and \<open>startMission\<close> then fails with the error of not enough
  clients.
\<close>

theorem reserve_not_enough_clients:
  "(current_mission_init s \<noteq> None \<longrightarrow>
      (let r = reserveClients env pool c s;
           new = drop (length (io_service s)) (io_service (snd r))
       in c > int (length (filter accepted_reservation new)) \<longrightarrow>
            fst r = Inr []
          \<and> map asked (filter (\<lambda>e. \<not> cancellation e) new) = pool
          \<and> map asked (filter cancellation new) = map asked (filter accepted_reservation new)))
   \<and> (\<not> is_mission_running (world_state s) \<and> 1 < getNumberOfAgents mission
      \<and> (isVideoRequested mission 0 \<longrightarrow>
            getVideoWidth mission 0 mod 4 = 0 \<and> getVideoHeight mission 0 mod 2 = 0) \<longrightarrow>
      (let s1 = initializeOurServers env mission mission_record 0 unique_experiment_id s;
           r = reserveClients env pool (getNumberOfAgents mission) s1;
           new = drop (length (io_service s)) (io_service (snd r))
       in getNumberOfAgents mission > int (length (filter accepted_reservation new)) \<longrightarrow>
            fst r = Inr []
          \<and> map asked (filter (\<lambda>e. \<not> cancellation e) new) = pool
          \<and> map asked (filter cancellation new) = map asked (filter accepted_reservation new)
          \<and> startMission env mission pool mission_record 0 unique_experiment_id s =
              (Inl (NotEnoughClients (getNumberOfAgents mission)), snd r)))"
proof (intro conjI impI)
  assume "current_mission_init s \<noteq> None"
  then show "let r = reserveClients env pool c s;
           new = drop (length (io_service s)) (io_service (snd r))
       in c > int (length (filter accepted_reservation new)) \<longrightarrow>
            fst r = Inr []
          \<and> map asked (filter (\<lambda>e. \<not> cancellation e) new) = pool
          \<and> map asked (filter cancellation new) = map asked (filter accepted_reservation new)"
    unfolding Let_def
    using reserveClients_not_enough [where s = s and c = c and env = env and pool = pool] by blast
next
  assume a: "\<not> is_mission_running (world_state s) \<and> 1 < getNumberOfAgents mission
      \<and> (isVideoRequested mission 0 \<longrightarrow>
            getVideoWidth mission 0 mod 4 = 0 \<and> getVideoHeight mission 0 mod 2 = 0)"
  define s1 where "s1 = initializeOurServers env mission mission_record 0 unique_experiment_id s"
  have s1: "current_mission_init s1 \<noteq> None" "io_service s1 = io_service s"
    by (simp_all add: s1_def)
  show "let s1 = initializeOurServers env mission mission_record 0 unique_experiment_id s;
           r = reserveClients env pool (getNumberOfAgents mission) s1;
           new = drop (length (io_service s)) (io_service (snd r))
       in getNumberOfAgents mission > int (length (filter accepted_reservation new)) \<longrightarrow>
            fst r = Inr []
          \<and> map asked (filter (\<lambda>e. \<not> cancellation e) new) = pool
          \<and> map asked (filter cancellation new) = map asked (filter accepted_reservation new)
          \<and> startMission env mission pool mission_record 0 unique_experiment_id s =
              (Inl (NotEnoughClients (getNumberOfAgents mission)), snd r)"
    unfolding Let_def s1_def [symmetric]
  proof (intro impI)
    assume gt: "int (length (filter accepted_reservation
             (drop (length (io_service s))
               (io_service (snd (reserveClients env pool (getNumberOfAgents mission) s1))))))
          < getNumberOfAgents mission"
    note r = reserveClients_not_enough [OF s1(1),
        where c = "getNumberOfAgents mission" and env = env and pool = pool,
        unfolded s1(2), OF gt]
    have "startMission env mission pool mission_record 0 unique_experiment_id s =
              (Inl (NotEnoughClients (getNumberOfAgents mission)),
               snd (reserveClients env pool (getNumberOfAgents mission) s1))"
      unfolding s1_def
      using a r(1) by (intro startMission_not_enough) (simp_all add: s1_def)
    with r show "fst (reserveClients env pool (getNumberOfAgents mission) s1) = Inr []
          \<and> map asked (filter (\<lambda>e. \<not> cancellation e)
               (drop (length (io_service s))
                 (io_service (snd (reserveClients env pool (getNumberOfAgents mission) s1))))) = pool
          \<and> map asked (filter cancellation
               (drop (length (io_service s))
                 (io_service (snd (reserveClients env pool (getNumberOfAgents mission) s1))))) =
            map asked (filter accepted_reservation
               (drop (length (io_service s))
                 (io_service (snd (reserveClients env pool (getNumberOfAgents mission) s1)))))
          \<and> startMission env mission pool mission_record 0 unique_experiment_id s =
              (Inl (NotEnoughClients (getNumberOfAgents mission)),
               snd (reserveClients env pool (getNumberOfAgents mission) s1))"
      by simp
  qed
qed

lemmas listen_defs =
  initializeOurServers_def listenForMissionControlMessages_def
  listenForVideo_def listenForRewards_def listenForObservations_def listen_string_def
  new_StringServer_def record_to_def recordMP4_def to_short_def

lemma example_reserve_run:
  assumes "current_mission_init s = Some mi" "getExperimentID mi = ''exp''" "io_service s = []"
  shows "fst (reserveClients (example_env_replies (\<lambda>item req. Some ''MALMOOK''))
            [example_host 0, example_host 1, example_host 2] 5 s) = Inr []"
    and "io_service (snd (reserveClients (example_env_replies (\<lambda>item req. Some ''MALMOOK''))
            [example_host 0, example_host 1, example_host 2] 5 s)) =
         map (\<lambda>(i, req). \<lparr>asked = example_host i, request = req, reply = Some ''MALMOOK''\<rparr>)
           [(0, ''MALMO_REQUEST_CLIENT:0.21.0:20000:exp'' @ newline),
            (1, ''MALMO_REQUEST_CLIENT:0.21.0:20000:exp'' @ newline),
            (2, ''MALMO_REQUEST_CLIENT:0.21.0:20000:exp'' @ newline),
            (0, ''MALMO_CANCEL_REQUEST'' @ newline),
            (1, ''MALMO_CANCEL_REQUEST'' @ newline),
            (2, ''MALMO_CANCEL_REQUEST'' @ newline)]"
  using assms
  by (simp_all add: example_env_replies_def example_env_def reserveClients_def reserve_loop.simps
        reservation_request_def send_request_def push_back_def Let_def)

lemma example_initialized_role0:
  "current_mission_init (initializeOurServers (example_env_replies f)
      (example_mission\<lparr>getNumberOfAgents := 5\<rparr>) example_record 0 ''exp''
      (AgentHost_new :: (int, nat) AgentHost)) =
     Some (example_mission_init
            \<lparr>getAgentMissionControlPort := 50001, getAgentRewardsPort := 50003,
             getAgentObservationsPort := 50004\<rparr>)"
  by (simp add: example_defs listen_defs Let_def)

theorem reserve_not_enough_clients_witness:
  "fst (reserveClients (example_env_replies (\<lambda>item req. Some ''MALMOOK''))
          (map example_host [0, 1, 2]) 5 example_role3) = Inr []
   \<and> map asked (filter cancellation (io_service (snd
        (reserveClients (example_env_replies (\<lambda>item req. Some ''MALMOOK''))
          (map example_host [0, 1, 2]) 5 example_role3)))) = map example_host [0, 1, 2]
   \<and> fst (startMission (example_env_replies (\<lambda>item req. Some ''MALMOOK''))
          (example_mission\<lparr>getNumberOfAgents := 5\<rparr>) (map example_host [0, 1, 2])
          example_record 0 ''exp'' (AgentHost_new :: (int, nat) AgentHost)) = Inl (NotEnoughClients 5)
   \<and> map asked (filter cancellation (io_service (snd
        (startMission (example_env_replies (\<lambda>item req. Some ''MALMOOK''))
          (example_mission\<lparr>getNumberOfAgents := 5\<rparr>) (map example_host [0, 1, 2])
          example_record 0 ''exp'' (AgentHost_new :: (int, nat) AgentHost))))) = map example_host [0, 1, 2]"
proof -
  define env where "env = example_env_replies (\<lambda>item req. Some ''MALMOOK'')"
  define s1 where "s1 = initializeOurServers env (example_mission\<lparr>getNumberOfAgents := 5\<rparr>)
      example_record 0 ''exp'' (AgentHost_new :: (int, nat) AgentHost)"
  have s1: "current_mission_init s1 = Some (example_mission_init
            \<lparr>getAgentMissionControlPort := 50001, getAgentRewardsPort := 50003,
             getAgentObservationsPort := 50004\<rparr>)" "io_service s1 = []"
    by (simp_all add: s1_def env_def example_initialized_role0) (simp add: AgentHost_new_def)
  have s3: "current_mission_init example_role3 = Some example_mission_init"
    "getExperimentID example_mission_init = ''exp''" "io_service example_role3 = []"
    by (simp_all add: example_role3_def AgentHost_new_def example_mission_init_def)
  have exp: "getExperimentID (example_mission_init
            \<lparr>getAgentMissionControlPort := 50001, getAgentRewardsPort := 50003,
             getAgentObservationsPort := 50004\<rparr>) = ''exp''"
    by (simp add: example_mission_init_def)
  note run3 = example_reserve_run [OF s3, folded env_def]
  note run1 = example_reserve_run [OF s1(1) exp s1(2), folded env_def]
  have a: "fst (reserveClients env (map example_host [0, 1, 2]) 5 example_role3) = Inr []"
    "map asked (filter cancellation (io_service (snd
        (reserveClients env (map example_host [0, 1, 2]) 5 example_role3)))) = map example_host [0, 1, 2]"
    using reserve_not_enough_clients
          [where s = example_role3 and env = env and pool = "map example_host [0, 1, 2]" and c = 5]
    by (simp_all add: run3 s3 accepted_reservation_def cancellation_def newline_def Let_def)
  have b: "startMission env (example_mission\<lparr>getNumberOfAgents := 5\<rparr>) (map example_host [0, 1, 2])
          example_record 0 ''exp'' AgentHost_new =
        (Inl (NotEnoughClients 5), snd (reserveClients env (map example_host [0, 1, 2]) 5 s1))"
    "map asked (filter cancellation (io_service (snd
        (reserveClients env (map example_host [0, 1, 2]) 5 s1)))) = map example_host [0, 1, 2]"
    using reserve_not_enough_clients
          [where s = "AgentHost_new :: (int, nat) AgentHost" and env = env
             and pool = "map example_host [0, 1, 2]"
             and mission = "example_mission\<lparr>getNumberOfAgents := 5\<rparr>"
             and mission_record = example_record and unique_experiment_id = "''exp''",
           folded s1_def]
    by (simp_all add: run1 example_mission_def AgentHost_new_def WorldState_new_def
          accepted_reservation_def cancellation_def newline_def Let_def)
  from a b show ?thesis
    by (simp add: env_def)
qed

section \<open>Failures of mission start and teardown\<close>

lemma example_initializeOurServers:
  "initializeOurServers (example_env_replies f) example_mission example_record 1 ''exp''
     (AgentHost_new :: (int, nat) AgentHost) = example_initialized"
  by (simp add: example_defs listen_defs Let_def)

lemmas findServer_defs =
  findServer_def findServer_loop.simps send_request_def find_first_of_def substr_def
  setMinecraftServerInformation_def Let_def

lemma example_findServer_no_colon:
  "findServer (example_env_replies (\<lambda>item req. Some ''MALMOSlocalhost'')) [example_host 0]
     example_initialized =
   (Inl (MalformedReply ''MALMOSlocalhost''),
    example_initialized\<lparr>io_service :=
      [\<lparr>asked = example_host 0, request = ''MALMO_FIND_SERVERexp'' @ newline,
        reply = Some ''MALMOSlocalhost''\<rparr>]\<rparr>)"
  by (simp add: example_defs findServer_defs)

lemma example_findServer_bad_port:
  "findServer (example_env_replies (\<lambda>item req. Some ''MALMOSlocalhost:abc'')) [example_host 0]
     example_initialized =
   (Inl (MalformedReply ''MALMOSlocalhost:abc''),
    example_initialized\<lparr>io_service :=
      [\<lparr>asked = example_host 0, request = ''MALMO_FIND_SERVERexp'' @ newline,
        reply = Some ''MALMOSlocalhost:abc''\<rparr>]\<rparr>)"
  by (simp add: example_defs findServer_defs)

lemma example_findServer_silent:
  "findServer (example_env_replies (\<lambda>item req. None)) [example_host 0] example_initialized =
   (Inl ServerNotFound,
    close (example_initialized\<lparr>io_service :=
      [\<lparr>asked = example_host 0, request = ''MALMO_FIND_SERVERexp'' @ newline, reply = None\<rparr>]\<rparr>))"
  by (simp add: example_defs findServer_defs)

lemma example_startMission_findServer:
  assumes "findServer (example_env_replies f) [example_host 0] example_initialized = (Inl e, s)"
  shows "startMission (example_env_replies f) example_mission [example_host 0] example_record 1
           ''exp'' (AgentHost_new :: (int, nat) AgentHost) = (Inl e, s)"
proof -
  have "\<not> is_mission_running (world_state (AgentHost_new :: (int, nat) AgentHost))"
    by (simp add: AgentHost_new_def WorldState_new_def)
  moreover have "current_mission_init example_initialized \<noteq> None"
    "\<not> hasMinecraftServerInformation (the (current_mission_init example_initialized))"
    by (simp_all add: example_initialized_def example_mission_init_def
          hasMinecraftServerInformation_def)
  moreover have "getNumberOfAgents example_mission = 2" "isVideoRequested example_mission 1"
    "getVideoWidth example_mission 1 = 320" "getVideoHeight example_mission 1 = 240"
    by (simp_all add: example_mission_def)
  ultimately show ?thesis
    using assms
    by (auto simp: startMission_def example_initializeOurServers Let_def)
qed

text \<open>
  C9 does not hold of the code. For role 1 of the example mission of two agents, a
  host whose reply to the find-server request begins with \<^verbatim>\<open>MALMOS\<close> and has no
  colon, or no number after the colon, makes \<open>startMission\<close> fail with the error of a
  malformed reply in the state that \<open>initializeOurServers\<close> left, one exchange added:
  the commands file is still open and the video and rewards listeners still record,
  which \<open>close\<close> would have ended. The sibling path of \<open>findServer\<close>, taken when no host
  knows the server, does call \<open>close\<close> before it throws.
\<close>

theorem malformed_reply_leaves_listeners_recording:
  "startMission (example_env_replies (\<lambda>item req. Some ''MALMOSlocalhost''))
      example_mission [example_host 0] example_record 1 ''exp'' (AgentHost_new :: (int, nat) AgentHost) =
     (Inl (MalformedReply ''MALMOSlocalhost''),
      example_initialized\<lparr>io_service :=
        [\<lparr>asked = example_host 0, request = ''MALMO_FIND_SERVERexp'' @ newline,
          reply = Some ''MALMOSlocalhost''\<rparr>]\<rparr>)
   \<and> startMission (example_env_replies (\<lambda>item req. Some ''MALMOSlocalhost:abc''))
      example_mission [example_host 0] example_record 1 ''exp'' (AgentHost_new :: (int, nat) AgentHost) =
     (Inl (MalformedReply ''MALMOSlocalhost:abc''),
      example_initialized\<lparr>io_service :=
        [\<lparr>asked = example_host 0, request = ''MALMO_FIND_SERVERexp'' @ newline,
          reply = Some ''MALMOSlocalhost:abc''\<rparr>]\<rparr>)
   \<and> startMission (example_env_replies (\<lambda>item req. None))
      example_mission [example_host 0] example_record 1 ''exp'' (AgentHost_new :: (int, nat) AgentHost) =
     (Inl ServerNotFound,
      close (example_initialized\<lparr>io_service :=
        [\<lparr>asked = example_host 0, request = ''MALMO_FIND_SERVERexp'' @ newline, reply = None\<rparr>]\<rparr>))
   \<and> commands_stream example_initialized = Some ''commands.txt''
   \<and> map_option video_recording (video_server example_initialized) = Some True
   \<and> map_option string_recording (rewards_server example_initialized) = Some (Some ''rewards.txt'')
   \<and> commands_stream (close example_initialized) = None
   \<and> map_option video_recording (video_server (close example_initialized)) = Some False
   \<and> map_option string_recording (rewards_server (close example_initialized)) = Some None"
  by (simp add: example_startMission_findServer [OF example_findServer_no_colon]
        example_startMission_findServer [OF example_findServer_bad_port]
        example_startMission_findServer [OF example_findServer_silent])
     (simp add: example_initialized_def AgentHost_new_def close_def video_stopRecording_def
        string_stopRecording_def)

end
